theory Spec2Isabelle
  imports Complex_Main "HOL-Library.AList"
begin

section \<open>JavaScript strings\<close>

text \<open>
  A JavaScript string is modelled as a \<^typ>\<open>string\<close>: a list of code units below 256.
  The character classes are the ones the regular expressions of the source use without
  the \<open>u\<close> flag: \<open>\d\<close> is \<open>[0-9]\<close>, \<open>\w\<close> is \<open>[A-Za-z0-9_]\<close>, \<open>\s\<close> and
  \<open>trim()\<close> take tab, line feed, vertical tab, form feed, carriage return, space and the
  no-break space, and \<open>.\<close> takes everything but line feed and carriage return.
\<close>

definition isDigit :: "char \<Rightarrow> bool" where
  "isDigit c = (c \<in> set ''0123456789'')"

definition isUpper :: "char \<Rightarrow> bool" where
  "isUpper c = (c \<in> set ''ABCDEFGHIJKLMNOPQRSTUVWXYZ'')"

definition isLower :: "char \<Rightarrow> bool" where
  "isLower c = (c \<in> set ''abcdefghijklmnopqrstuvwxyz'')"

definition isAlpha :: "char \<Rightarrow> bool" where
  "isAlpha c = (isUpper c \<or> isLower c)"

definition isWordChar :: "char \<Rightarrow> bool" where
  "isWordChar c = (isAlpha c \<or> isDigit c \<or> c = CHR ''_'')"

definition isSpace :: "char \<Rightarrow> bool" where
  "isSpace c = (c \<in> set [CHR 0x09, CHR 0x0A, CHR 0x0B, CHR 0x0C, CHR 0x0D, CHR 0x20, CHR 0xA0])"

definition isLineTerminator :: "char \<Rightarrow> bool" where
  "isLineTerminator c = (c \<in> set [CHR 0x0A, CHR 0x0D])"

text \<open>\<open>toLowerCase()\<close> and \<open>toUpperCase()\<close> on one code unit, for the ASCII letters (the
  source applies them to \<open>[A-Za-z]\<close> groups only; every other code unit is left alone, as
  case-insensitive matching without the \<open>u\<close> flag does for a pattern of ASCII letters).\<close>

definition toLowerChar :: "char \<Rightarrow> char" where
  "toLowerChar c =
     (case map_of (zip ''ABCDEFGHIJKLMNOPQRSTUVWXYZ'' ''abcdefghijklmnopqrstuvwxyz'') c of
        Some d \<Rightarrow> d | None \<Rightarrow> c)"

definition toUpperChar :: "char \<Rightarrow> char" where
  "toUpperChar c =
     (case map_of (zip ''abcdefghijklmnopqrstuvwxyz'' ''ABCDEFGHIJKLMNOPQRSTUVWXYZ'') c of
        Some d \<Rightarrow> d | None \<Rightarrow> c)"

definition toLowerCase :: "string \<Rightarrow> string" where
  "toLowerCase s = map toLowerChar s"

definition toUpperCase :: "string \<Rightarrow> string" where
  "toUpperCase s = map toUpperChar s"

definition trim :: "string \<Rightarrow> string" where
  "trim s = rev (dropWhile isSpace (rev (dropWhile isSpace s)))"

text \<open>Splitting at every code unit of a class: \<open>s.split(c)\<close> for a separator of one
  code unit (never empty: the empty string gives one empty piece). A pattern such as
  \<open>^(\d{1,2}):(\d{2})$\<close>, whose groups cannot hold the separator, matches exactly when
  the split gives pieces of those shapes, and the pieces are its groups.\<close>

fun split_by :: "(char \<Rightarrow> bool) \<Rightarrow> string \<Rightarrow> string list" where
  "split_by P [] = [[]]"
| "split_by P (x # xs) =
     (if P x then [] # split_by P xs
      else (case split_by P xs of p # ps \<Rightarrow> (x # p) # ps | [] \<Rightarrow> [[x]]))"

definition split_on :: "char \<Rightarrow> string \<Rightarrow> string list" where
  "split_on c s = split_by (\<lambda>x. x = c) s"

definition padStart :: "nat \<Rightarrow> char \<Rightarrow> string \<Rightarrow> string" where
  "padStart n c s = replicate (n - length s) c @ s"

text \<open>\<open>s.slice(-n)\<close>: the last \<open>n\<close> code units, the whole string when it is shorter.\<close>

definition slice_last :: "nat \<Rightarrow> string \<Rightarrow> string" where
  "slice_last n s = drop (length s - n) s"

text \<open>A run of decimal digits, as \<open>\d{n}\<close> captures it, and its value: what \<open>Number\<close> and
  \<open>parseInt(_, 10)\<close> return on such a capture.\<close>

definition digits :: "string \<Rightarrow> bool" where
  "digits s = (s \<noteq> [] \<and> list_all isDigit s)"

definition digitsN :: "nat \<Rightarrow> nat \<Rightarrow> string \<Rightarrow> bool" where
  "digitsN lo hi s = (lo \<le> length s \<and> length s \<le> hi \<and> list_all isDigit s)"

definition alphaN :: "nat \<Rightarrow> string \<Rightarrow> bool" where
  "alphaN n s = (length s = n \<and> list_all isAlpha s)"

definition digitVal :: "char \<Rightarrow> nat" where
  "digitVal c =
     (case map_of (zip ''0123456789'' [0, 1, 2, 3, 4, 5, 6, 7, 8, 9]) c of
        Some n \<Rightarrow> n | None \<Rightarrow> 0)"

definition dec :: "string \<Rightarrow> nat" where
  "dec s = foldl (\<lambda>n c. 10 * n + digitVal c) 0 s"

text \<open>\<open>String(n)\<close> for a natural number: its decimal digits.\<close>

definition digitChar :: "nat \<Rightarrow> char" where
  "digitChar n = ''0123456789'' ! n"

fun String_nat :: "nat \<Rightarrow> string" where
  "String_nat n =
     (if n < 10 then [digitChar n]
      else String_nat (n div 10) @ [digitChar (n mod 10)])"

declare String_nat.simps [simp del]

definition pad2 :: "nat \<Rightarrow> string" where
  "pad2 n = padStart 2 (CHR ''0'') (String_nat n)"

definition MONTHS :: "string list" where
  "MONTHS = [''Jan'', ''Feb'', ''Mar'', ''Apr'', ''May'', ''Jun'',
             ''Jul'', ''Aug'', ''Sep'', ''Oct'', ''Nov'', ''Dec'']"

section \<open>JavaScript values\<close>

text \<open>
  A number is a finite value, an infinity or NaN. Finite doubles are modelled by exact
  rationals: rounding, and overflow of a finite result, are not modelled. A cell of a row
  (\<open>Record<string, any>\<close>) is a scalar: undefined, null, a boolean, a number or a string.
\<close>

datatype jsnum = Fin rat | PInf | NInf | NaN

datatype jsval = JUndefined | JNull | JBool bool | JNum jsnum | JStr string

text \<open>
  Two conversions of the JavaScript runtime are parameters of the model: \<open>Number\<close> on a
  string that is not a plain run of decimal digits (signs, fractions, exponents, hexadecimal
  literals, \<open>Infinity\<close>), and \<open>String\<close> on a number. Every theorem holds for whatever
  they are.
\<close>

record runtime =
  str_to_num :: "string \<Rightarrow> jsnum"
  num_to_str :: "jsnum \<Rightarrow> string"

definition Number_str :: "runtime \<Rightarrow> string \<Rightarrow> jsnum" where
  "Number_str rt s =
     (let t = trim s in
      if t = [] then Fin 0
      else if list_all isDigit t then Fin (of_nat (dec t))
      else str_to_num rt s)"

fun Number_js :: "runtime \<Rightarrow> jsval \<Rightarrow> jsnum" where
  "Number_js rt JUndefined = NaN"
| "Number_js rt JNull = Fin 0"
| "Number_js rt (JBool b) = (if b then Fin 1 else Fin 0)"
| "Number_js rt (JNum n) = n"
| "Number_js rt (JStr s) = Number_str rt s"

fun String_js :: "runtime \<Rightarrow> jsval \<Rightarrow> string" where
  "String_js rt JUndefined = ''undefined''"
| "String_js rt JNull = ''null''"
| "String_js rt (JBool b) = (if b then ''true'' else ''false'')"
| "String_js rt (JNum n) = num_to_str rt n"
| "String_js rt (JStr s) = s"

fun truthy :: "jsval \<Rightarrow> bool" where
  "truthy JUndefined = False"
| "truthy JNull = False"
| "truthy (JBool b) = b"
| "truthy (JNum n) = (n \<noteq> Fin 0 \<and> n \<noteq> NaN)"
| "truthy (JStr s) = (s \<noteq> [])"

definition nullish :: "jsval \<Rightarrow> bool" where
  "nullish v = (v = JUndefined \<or> v = JNull)"

text \<open>\<open>a ?? b\<close> and \<open>a || b\<close>.\<close>

definition coalesce :: "jsval \<Rightarrow> jsval \<Rightarrow> jsval" where
  "coalesce a b = (if nullish a then b else a)"

definition js_or :: "jsval \<Rightarrow> jsval \<Rightarrow> jsval" where
  "js_or a b = (if truthy a then a else b)"

fun isFinite :: "jsnum \<Rightarrow> bool" where
  "isFinite (Fin x) = True"
| "isFinite _ = False"

fun js_lt :: "jsnum \<Rightarrow> jsnum \<Rightarrow> bool" where
  "js_lt NaN _ = False"
| "js_lt _ NaN = False"
| "js_lt (Fin x) (Fin y) = (x < y)"
| "js_lt (Fin x) PInf = True"
| "js_lt (Fin x) NInf = False"
| "js_lt NInf NInf = False"
| "js_lt NInf _ = True"
| "js_lt PInf _ = False"

fun js_le :: "jsnum \<Rightarrow> jsnum \<Rightarrow> bool" where
  "js_le NaN _ = False"
| "js_le _ NaN = False"
| "js_le a b = (a = b \<or> js_lt a b)"

definition js_gt :: "jsnum \<Rightarrow> jsnum \<Rightarrow> bool" where
  "js_gt a b = js_lt b a"

definition js_ge :: "jsnum \<Rightarrow> jsnum \<Rightarrow> bool" where
  "js_ge a b = js_le b a"

text \<open>A row: its keys in insertion order, each once. A key that is absent reads as
  undefined.\<close>

type_synonym row = "(string \<times> jsval) list"

definition get :: "row \<Rightarrow> string \<Rightarrow> jsval" where
  "get r k = (case map_of r k of Some v \<Rightarrow> v | None \<Rightarrow> JUndefined)"

section \<open>Dates in three dialects\<close>

text \<open>An element of a destructured array, inserted into a template literal: a missing
  element prints as \<open>undefined\<close>.\<close>

definition part :: "string list \<Rightarrow> nat \<Rightarrow> string" where
  "part ps i = (if i < length ps then ps ! i else ''undefined'')"

text \<open>\<open>/^\d{2}-\d{2}-\d{4}$/\<close>\<close>

definition match_ddmmyyyy :: "string \<Rightarrow> bool" where
  "match_ddmmyyyy s =
     (case split_on CHR ''-'' s of
        [d, m, y] \<Rightarrow> digitsN 2 2 d \<and> digitsN 2 2 m \<and> digitsN 4 4 y
      | _ \<Rightarrow> False)"

text \<open>\<open>/^(\d{2})-([A-Za-z]{3})-(\d{2})$/\<close>\<close>

definition match_ddmmmyy :: "string \<Rightarrow> bool" where
  "match_ddmmmyy s =
     (case split_on CHR ''-'' s of
        [d, m, y] \<Rightarrow> digitsN 2 2 d \<and> alphaN 3 m \<and> digitsN 2 2 y
      | _ \<Rightarrow> False)"

definition ddmmyyyyToISO :: "string \<Rightarrow> string" where
  "ddmmyyyyToISO ddmmyyyy =
     (let ps = split_on CHR ''-'' ddmmyyyy
      in part ps 2 @ ''-'' @ part ps 1 @ ''-'' @ part ps 0)"

text \<open>\<open>MONTHS[mi - 1]\<close> in a template literal, for a number \<open>mi\<close> from 1 to 12: an index
  that is not whole reads undefined.\<close>

definition month_name :: "rat \<Rightarrow> string" where
  "month_name mi =
     (if mi = of_int \<lfloor>mi\<rfloor> then MONTHS ! (nat \<lfloor>mi\<rfloor> - 1) else ''undefined'')"

definition ddmmyyyyToDDMMMYY :: "runtime \<Rightarrow> string \<Rightarrow> string" where
  "ddmmyyyyToDDMMMYY rt ddmmyyyy =
     (let ps = split_on CHR ''-'' ddmmyyyy;
          mi = (if 1 < length ps then Number_str rt (ps ! 1) else NaN)
      in case mi of
           Fin x \<Rightarrow>
             if x = 0 \<or> x < 1 \<or> x > 12 then ddmmyyyy
             else part ps 0 @ ''-'' @ month_name x @ ''-'' @ slice_last 2 (part ps 2)
         | _ \<Rightarrow> ddmmyyyy)"

text \<open>\<open>arr.findIndex(p)\<close>, with \<open>None\<close> for -1.\<close>

fun findIndex :: "('a \<Rightarrow> bool) \<Rightarrow> 'a list \<Rightarrow> nat option" where
  "findIndex P [] = None"
| "findIndex P (x # xs) = (if P x then Some 0 else map_option Suc (findIndex P xs))"

text \<open>\<open>[...new Set(xs)]\<close>: the first occurrence of each element, in order.\<close>

fun uniq :: "'a list \<Rightarrow> 'a list" where
  "uniq [] = []"
| "uniq (x # xs) = x # uniq (filter (\<lambda>y. y \<noteq> x) xs)"

definition getDateVariations :: "string \<Rightarrow> string list" where
  "getDateVariations date =
     (let ps = split_on CHR ''-'' date;
          v1 = (if match_ddmmyyyy date
                then (let day = ps ! 0; month = ps ! 1; year = ps ! 2;
                          monthIndex = int (dec month) - 1
                      in if monthIndex \<ge> 0 \<and> monthIndex < 12
                         then [day @ ''-'' @ MONTHS ! nat monthIndex @ ''-'' @ slice_last 2 year,
                               year @ ''-'' @ month @ ''-'' @ day]
                         else [])
                else []);
          v2 = (if match_ddmmmyy date
                then (let day = ps ! 0; monthName = ps ! 1; shortYear = ps ! 2
                      in case findIndex (\<lambda>m. toLowerCase m = toLowerCase monthName) MONTHS of
                           Some monthIndex \<Rightarrow>
                             (let fullYear = ''20'' @ shortYear;
                                  month = padStart 2 (CHR ''0'') (String_nat (monthIndex + 1))
                              in [day @ ''-'' @ month @ ''-'' @ fullYear,
                                  fullYear @ ''-'' @ month @ ''-'' @ day])
                         | None \<Rightarrow> [])
                else [])
      in uniq ([date] @ v1 @ v2))"

section \<open>Normalizing dates and times\<close>

text \<open>The time patterns, on a trimmed string:
  \<open>/^(\d{1,2}):(\d{2})$/\<close>, \<open>/^(\d{1,2}):(\d{2}):(\d{2})$/\<close> and \<open>/^(\d{2}):(\d{2})$/\<close>.\<close>

definition match_hmm :: "string \<Rightarrow> bool" where
  "match_hmm s =
     (case split_on CHR '':'' s of [h, m] \<Rightarrow> digitsN 1 2 h \<and> digitsN 2 2 m | _ \<Rightarrow> False)"

definition match_hmmss :: "string \<Rightarrow> bool" where
  "match_hmmss s =
     (case split_on CHR '':'' s of
        [h, m, sec] \<Rightarrow> digitsN 1 2 h \<and> digitsN 2 2 m \<and> digitsN 2 2 sec
      | _ \<Rightarrow> False)"

definition match_hhmm :: "string \<Rightarrow> bool" where
  "match_hhmm s =
     (case split_on CHR '':'' s of [h, m] \<Rightarrow> digitsN 2 2 h \<and> digitsN 2 2 m | _ \<Rightarrow> False)"

subsection \<open>The meter validator (\<open>meter-validate.service\<close>)\<close>

definition isValidDDMMYYYY :: "jsval \<Rightarrow> bool" where
  "isValidDDMMYYYY v = (case v of JStr s \<Rightarrow> match_ddmmyyyy (trim s) | _ \<Rightarrow> False)"

definition isValidHHMM :: "jsval \<Rightarrow> bool" where
  "isValidHHMM v =
     (case v of
        JStr s \<Rightarrow>
          (let t = trim s in
           if \<not> match_hhmm t then False
           else (let ps = split_on CHR '':'' t; hh = dec (ps ! 0); mm = dec (ps ! 1)
                 in hh \<ge> 0 \<and> hh \<le> 23 \<and> mm \<ge> 0 \<and> mm \<le> 59))
      | _ \<Rightarrow> False)"

text \<open>\<open>normalizeHHMM(v: any): string | null\<close>, with \<open>None\<close> for null.\<close>

definition normalizeHHMM :: "runtime \<Rightarrow> jsval \<Rightarrow> string option" where
  "normalizeHHMM rt v =
     (if v = JNull \<or> v = JUndefined \<or> v = JStr [] then None
      else (let s = trim (String_js rt v); ps = split_on CHR '':'' s
            in if match_hmmss s then Some (pad2 (dec (ps ! 0)) @ '':'' @ ps ! 1)
               else if match_hmm s then Some (pad2 (dec (ps ! 0)) @ '':'' @ ps ! 1)
               else Some s))"

subsection \<open>The weather validator (\<open>weather-validate.service\<close>)\<close>

text \<open>\<open>m[2].slice(0, 1).toUpperCase() + m[2].slice(1).toLowerCase()\<close>\<close>

definition capitalize :: "string \<Rightarrow> string" where
  "capitalize m = toUpperCase (take 1 m) @ toLowerCase (drop 1 m)"

definition w_isValidDDMMMYY :: "string \<Rightarrow> bool" where
  "w_isValidDDMMMYY s =
     (if s = [] then False
      else (let t = trim s in
            if \<not> match_ddmmmyy t then False
            else (let ps = split_on CHR ''-'' t; dd = dec (ps ! 0); mon = capitalize (ps ! 1);
                      yy = dec (ps ! 2)
                  in if dd < 1 \<or> dd > 31 then False
                     else if mon \<notin> set MONTHS then False
                     else if yy < 0 \<or> yy > 99 then False
                     else True)))"

definition normalizeDDMMMYY :: "string \<Rightarrow> string" where
  "normalizeDDMMMYY s =
     (if s = [] then s
      else (let t = trim s in
            if \<not> match_ddmmmyy t then s
            else (let ps = split_on CHR ''-'' t
                  in ps ! 0 @ ''-'' @ capitalize (ps ! 1) @ ''-'' @ ps ! 2)))"

text \<open>\<open>/^([01]\d|2[0-3]):[0-5]\d$/\<close>\<close>

definition w_isValidHHMM :: "string \<Rightarrow> bool" where
  "w_isValidHHMM s =
     (if s = [] then False
      else (case trim s of
              [h1, h2, c, m1, m2] \<Rightarrow>
                ((h1 \<in> set ''01'' \<and> isDigit h2) \<or> (h1 = CHR ''2'' \<and> h2 \<in> set ''0123'')) \<and>
                c = CHR '':'' \<and> m1 \<in> set ''012345'' \<and> isDigit m2
            | _ \<Rightarrow> False))"

text \<open>\<open>/^(\d{1,2}):(\d{2})(?::(\d{2}))?$/\<close> on the trimmed string.\<close>

definition w_normalizeHHMM :: "string \<Rightarrow> string" where
  "w_normalizeHHMM s =
     (if s = [] then s
      else (let t = trim s; ps = split_on CHR '':'' t
            in if \<not> (match_hmm t \<or> match_hmmss t) then t
               else padStart 2 (CHR ''0'') (String_nat (dec (ps ! 0))) @ '':'' @ ps ! 1))"

subsection \<open>The spreadsheet reader (\<open>WeatherExcelService\<close>)\<close>

text \<open>\<open>/^(\d{1,2})\/([A-Za-z]{3})\/(\d{2,4})$/\<close> and
  \<open>/^(\d{1,2})[\/\-](\d{1,2})[\/\-](\d{2,4})$/\<close>\<close>

definition match_slash_mon :: "string \<Rightarrow> bool" where
  "match_slash_mon s =
     (case split_on CHR ''/'' s of
        [d, m, y] \<Rightarrow> digitsN 1 2 d \<and> alphaN 3 m \<and> digitsN 2 4 y
      | _ \<Rightarrow> False)"

definition match_numeric_date :: "string \<Rightarrow> bool" where
  "match_numeric_date s =
     (case split_by (\<lambda>c. c = CHR ''/'' \<or> c = CHR ''-'') s of
        [d, m, y] \<Rightarrow> digitsN 1 2 d \<and> digitsN 1 2 m \<and> digitsN 2 4 y
      | _ \<Rightarrow> False)"

definition normalizeDate :: "runtime \<Rightarrow> jsval \<Rightarrow> string" where
  "normalizeDate rt v =
     (if \<not> truthy v then []
      else (let str = trim (String_js rt v) in
            if match_ddmmmyy str then str
            else if match_slash_mon str then
              (let ps = split_on CHR ''/'' str;
                   day = padStart 2 (CHR ''0'') (ps ! 0);
                   month = toUpperCase (take 1 (ps ! 1)) @ toLowerCase (drop 1 (ps ! 1));
                   year = slice_last 2 (ps ! 2)
               in day @ ''-'' @ month @ ''-'' @ year)
            else if match_numeric_date str then
              (let ps = split_by (\<lambda>c. c = CHR ''/'' \<or> c = CHR ''-'') str;
                   day = padStart 2 (CHR ''0'') (ps ! 0);
                   monthNum = dec (ps ! 1);
                   month = (if 1 \<le> monthNum \<and> monthNum \<le> 12 then MONTHS ! (monthNum - 1)
                            else ''Jan'');
                   year = slice_last 2 (ps ! 2)
               in day @ ''-'' @ month @ ''-'' @ year)
            else str))"

definition normalizeTime :: "runtime \<Rightarrow> jsval \<Rightarrow> string" where
  "normalizeTime rt v =
     (if \<not> truthy v then []
      else (let str = trim (String_js rt v); ps = split_on CHR '':'' str in
            if match_hhmm str then str
            else if match_hmm str \<or> match_hmmss str then
              padStart 2 (CHR ''0'') (ps ! 0) @ '':'' @ ps ! 1
            else str))"

section \<open>Meter validation (\<open>MeterValidateService\<close>)\<close>

subsection \<open>Times of day\<close>

text \<open>\<open>timeToMinutes\<close>: \<open>hhmm.split(':').map(Number)\<close>, then \<open>h * 60 + m\<close>. Both callers
  pass strings that \<open>isValidHHMM\<close> accepted, on which \<open>Number\<close> is the decimal value of two
  digits; a string with no colon is outside the model and reads 0.\<close>

definition timeToMinutes :: "string \<Rightarrow> int" where
  "timeToMinutes hhmm =
     (case split_on CHR '':'' hhmm of
        h # m # _ \<Rightarrow> int (dec h) * 60 + int (dec m)
      | _ \<Rightarrow> 0)"

text \<open>The remainder operator \<open>%\<close> on integers, for a positive divisor: the sign of the
  dividend.\<close>

definition js_rem :: "int \<Rightarrow> int \<Rightarrow> int" where
  "js_rem a b = (if a \<ge> 0 then a mod b else - ((- a) mod b))"

definition minutesToHHMM :: "int \<Rightarrow> string" where
  "minutesToHHMM tot =
     (let t = js_rem (js_rem tot 1440 + 1440) 1440;
          hh = padStart 2 (CHR ''0'') (String_nat (nat (t div 60)));
          mm = padStart 2 (CHR ''0'') (String_nat (nat (js_rem t 60)))
      in hh @ '':'' @ mm)"

definition diffHHMM :: "string \<Rightarrow> string \<Rightarrow> string" where
  "diffHHMM start stop =
     (let s = timeToMinutes start; e = timeToMinutes stop;
          diff = (if e \<ge> s then e - s else 1440 - s + e)
      in minutesToHHMM diff)"

subsection \<open>Readings\<close>

text \<open>\<open>toNumberOrNull\<close>, with \<open>None\<close> for null.\<close>

definition toNumberOrNull :: "runtime \<Rightarrow> jsval \<Rightarrow> jsnum option" where
  "toNumberOrNull rt v =
     (if v = JNull \<or> v = JUndefined \<or> v = JStr [] then None
      else (let n = Number_js rt v in if isFinite n then Some n else Some NaN))"

text \<open>A literal pattern tested without anchors and with the \<open>i\<close> flag, such as
  \<open>/gss/i.test(s)\<close>: the pattern, written in lower case, occurs somewhere in the string.\<close>

definition starts_with_ci :: "string \<Rightarrow> string \<Rightarrow> bool" where
  "starts_with_ci pat s = (toLowerCase (take (length pat) s) = pat)"

fun contains_ci :: "string \<Rightarrow> string \<Rightarrow> bool" where
  "contains_ci pat [] = (pat = [])"
| "contains_ci pat (c # cs) = (starts_with_ci pat (c # cs) \<or> contains_ci pat cs)"

text \<open>\<open>/export|import/i.test(k)\<close>\<close>

definition isReadingKey :: "string \<Rightarrow> bool" where
  "isReadingKey k = (contains_ci ''export'' k \<or> contains_ci ''import'' k)"

text \<open>\<open>Object.keys(row)\<close>: the keys in insertion order (keys that are array indices, which
  JavaScript lists first, are not modelled).\<close>

definition keys :: "row \<Rightarrow> string list" where
  "keys r = map fst r"

text \<open>One round of the loop over \<open>readingKeys\<close>: the state is \<open>rowErrors\<close> and
  \<open>hasAnyReading\<close>.\<close>

definition reading_step :: "runtime \<Rightarrow> row \<Rightarrow> string list \<times> bool \<Rightarrow> string \<Rightarrow> string list \<times> bool" where
  "reading_step rt row st k =
     (case toNumberOrNull rt (get row k) of
        None \<Rightarrow> st
      | Some n \<Rightarrow>
          if n = NaN then (fst st @ [k @ '' must be numeric''], snd st)
          else (if js_lt n (Fin 0) then fst st @ [k @ '' cannot be negative''] else fst st, True))"

subsection \<open>Weather of a date\<close>

text \<open>The weather store is the function \<open>Weather.find({ $or: conditions })\<close>: it takes the
  list of \<open>{ field: value }\<close> conditions and returns documents, which are rows.\<close>

type_synonym weather_find = "(string \<times> string) list \<Rightarrow> row list"

definition dateConditions :: "runtime \<Rightarrow> string list \<Rightarrow> (string \<times> string) list" where
  "dateConditions rt uniqueDates =
     concat (map (\<lambda>d. let iso = ddmmyyyyToISO d; ddmmyy = ddmmyyyyToDDMMMYY rt d
                      in [(''Date'', iso), (''Date'', ddmmyy), (''date'', iso), (''date'', ddmmyy)])
                 uniqueDates)"

definition uniqueDates :: "row list \<Rightarrow> string list" where
  "uniqueDates rows =
     uniq (filter (\<lambda>d. d \<noteq> [] \<and> isValidDDMMYYYY (JStr d))
             (map (\<lambda>r. case get r ''Date'' of JStr s \<Rightarrow> trim s | _ \<Rightarrow> []) rows))"

text \<open>The grouping loop: a document goes to the first unique date whose ISO or
  \<open>DD-MMM-YY\<close> form its \<open>Date || date || ''\<close> equals, and to no other.\<close>

definition dateVal :: "row \<Rightarrow> jsval" where
  "dateVal w = js_or (get w ''Date'') (js_or (get w ''date'') (JStr []))"

definition group_of :: "runtime \<Rightarrow> string list \<Rightarrow> row \<Rightarrow> string option" where
  "group_of rt uds w =
     List.find (\<lambda>d. dateVal w = JStr (ddmmyyyyToISO d) \<or> dateVal w = JStr (ddmmyyyyToDDMMMYY rt d)) uds"

text \<open>\<open>weatherByDate.get(date) || []\<close>, for the documents the store returned.\<close>

definition weatherByDate :: "runtime \<Rightarrow> string list \<Rightarrow> row list \<Rightarrow> string \<Rightarrow> row list" where
  "weatherByDate rt uds allWeatherRows date =
     filter (\<lambda>w. group_of rt uds w = Some date) allWeatherRows"

definition allWeatherRows :: "runtime \<Rightarrow> weather_find \<Rightarrow> row list \<Rightarrow> row list" where
  "allWeatherRows rt Weather_find rows =
     (if length (uniqueDates rows) > 0 then Weather_find (dateConditions rt (uniqueDates rows))
      else [])"

subsection \<open>Plant start, stop and total\<close>

type_synonym point = "string \<times> jsnum"

definition toPoint :: "runtime \<Rightarrow> row \<Rightarrow> point" where
  "toPoint rt x =
     (let tRaw = coalesce (get x ''Time'') (coalesce (get x ''time'') (JStr []));
          t = normalizeHHMM rt (JStr (String_js rt tRaw));
          poa = Number_js rt (coalesce (get x ''POA'') (coalesce (get x ''poa'')
                  (coalesce (get x ''POA Meter 1'') (get x ''POA_Meter_1''))))
      in ((case t of Some s \<Rightarrow> take 5 s | None \<Rightarrow> []),
          (if isFinite poa then poa else NaN)))"

definition keepPoint :: "point \<Rightarrow> bool" where
  "keepPoint p = (isValidHHMM (JStr (fst p)) \<and> isFinite (snd p))"

text \<open>\<open>.map(...).filter(...).sort((a, b) => timeToMinutes(a.time) - timeToMinutes(b.time))\<close>:
  the sort is stable.\<close>

definition points :: "runtime \<Rightarrow> row list \<Rightarrow> point list" where
  "points rt w = sort_key (\<lambda>p. timeToMinutes (fst p)) (filter keepPoint (map (toPoint rt) w))"

definition plantStartTime :: "point list \<Rightarrow> string" where
  "plantStartTime pts =
     (case List.find (\<lambda>p. js_ge (snd p) (Fin 10)) pts of
        Some first10 \<Rightarrow> fst first10
      | None \<Rightarrow> ''00:00'')"

definition plantStopTime :: "point list \<Rightarrow> string" where
  "plantStopTime pts =
     (case List.find (\<lambda>p. js_gt (snd p) (Fin 0) \<and> js_lt (snd p) (Fin 50)) (rev pts) of
        Some lastBetween \<Rightarrow> fst lastBetween
      | None \<Rightarrow>
          (case List.find (\<lambda>p. js_gt (snd p) (Fin 0)) (rev pts) of
             Some lastPos \<Rightarrow> fst lastPos
           | None \<Rightarrow> ''00:00''))"

definition total_of :: "string \<Rightarrow> string \<Rightarrow> string" where
  "total_of start stop =
     (if isValidHHMM (JStr start) \<and> isValidHHMM (JStr stop) then diffHHMM start stop
      else ''00:00'')"

subsection \<open>Export and import pairs\<close>

text \<open>
  \<open>new RegExp(`^${type}\\s*(.*?)\\s*(Initial|Start)\\b`, 'i')\<close> and its sibling with
  \<open>(Final|End)\<close>. After the type and the white space that follows it, the lazy group
  takes the fewest code units (none of them a line terminator) after which white space,
  one of the two words and a word boundary follow. \<open>keyword_here\<close> is that tail of the
  pattern, \<open>lazy_group\<close> the group, with \<open>None\<close> when the key does not match.
\<close>

definition keyword_here :: "string list \<Rightarrow> string \<Rightarrow> bool" where
  "keyword_here kws r =
     (let r' = dropWhile isSpace r
      in list_ex (\<lambda>kw. starts_with_ci kw r' \<and>
                        (case drop (length kw) r' of [] \<Rightarrow> True | c # _ \<Rightarrow> \<not> isWordChar c)) kws)"

fun lazy_group :: "string list \<Rightarrow> string \<Rightarrow> string option" where
  "lazy_group kws [] = (if keyword_here kws [] then Some [] else None)"
| "lazy_group kws (c # cs) =
     (if keyword_here kws (c # cs) then Some []
      else if isLineTerminator c then None
      else map_option ((#) c) (lazy_group kws cs))"

datatype pair_type = Export | Import

fun type_name :: "pair_type \<Rightarrow> string" where
  "type_name Export = ''Export''"
| "type_name Import = ''Import''"

definition match_pair_key :: "pair_type \<Rightarrow> string list \<Rightarrow> string \<Rightarrow> string option" where
  "match_pair_key ty kws k =
     (if starts_with_ci (toLowerCase (type_name ty)) k
      then lazy_group kws (dropWhile isSpace (drop (length (type_name ty)) k))
      else None)"

definition initialRegex :: "pair_type \<Rightarrow> string \<Rightarrow> string option" where
  "initialRegex ty k = match_pair_key ty [''initial'', ''start''] k"

definition finalRegex :: "pair_type \<Rightarrow> string \<Rightarrow> string option" where
  "finalRegex ty k = match_pair_key ty [''final'', ''end''] k"

text \<open>\<open>(m[1] || '').trim() || '1'\<close>\<close>

definition pair_id :: "string \<Rightarrow> string" where
  "pair_id g = (if trim g = [] then ''1'' else trim g)"

text \<open>A \<open>Map<string, string>\<close> filled by \<open>set\<close> in a loop over the keys: a later key of the
  same id replaces the earlier one where it stands.\<close>

definition collect :: "(string \<Rightarrow> string option) \<Rightarrow> string list \<Rightarrow> (string \<times> string) list" where
  "collect regex ks =
     foldl (\<lambda>acc k. case regex k of Some g \<Rightarrow> AList.update (pair_id g) k acc | None \<Rightarrow> acc) [] ks"

fun js_sub :: "jsnum \<Rightarrow> jsnum \<Rightarrow> jsnum" where
  "js_sub (Fin a) (Fin b) = Fin (a - b)"
| "js_sub NaN _ = NaN"
| "js_sub _ NaN = NaN"
| "js_sub PInf PInf = NaN"
| "js_sub NInf NInf = NaN"
| "js_sub PInf _ = PInf"
| "js_sub NInf _ = NInf"
| "js_sub _ PInf = NInf"
| "js_sub _ NInf = PInf"

fun js_add :: "jsnum \<Rightarrow> jsnum \<Rightarrow> jsnum" where
  "js_add (Fin a) (Fin b) = Fin (a + b)"
| "js_add NaN _ = NaN"
| "js_add _ NaN = NaN"
| "js_add PInf NInf = NaN"
| "js_add NInf PInf = NaN"
| "js_add PInf _ = PInf"
| "js_add NInf _ = NInf"
| "js_add _ PInf = PInf"
| "js_add _ NInf = NInf"

text \<open>\<open>computePairs(type)\<close>: the \<open>{ id, value }\<close> entries it pushes, in order.\<close>

definition computePairs :: "runtime \<Rightarrow> row \<Rightarrow> pair_type \<Rightarrow> (string \<times> jsnum) list" where
  "computePairs rt row ty =
     (let initials = collect (initialRegex ty) (keys row);
          finals = collect (finalRegex ty) (keys row)
      in concat (map (\<lambda>(id, ik).
           case map_of finals id of
             None \<Rightarrow> []
           | Some fk \<Rightarrow>
               if fk = [] then []
               else (case (toNumberOrNull rt (get row ik), toNumberOrNull rt (get row fk)) of
                       (Some ini, Some fin) \<Rightarrow>
                         if ini = NaN \<or> fin = NaN then [] else [(id, js_sub fin ini)]
                     | _ \<Rightarrow> [])) initials))"

text \<open>The entries of \<open>computed\<close> that \<open>computePairs(type)\<close> writes.\<close>

definition computed_of :: "pair_type \<Rightarrow> (string \<times> jsnum) list \<Rightarrow> row" where
  "computed_of ty totals = map (\<lambda>(id, v). (trim (type_name ty @ '' Total '' @ id), JNum v)) totals"

definition isGss :: "string \<times> jsnum \<Rightarrow> bool" where
  "isGss t = contains_ci ''gss'' (fst t)"

definition hasGss :: "(string \<times> jsnum) list \<Rightarrow> (string \<times> jsnum) list \<Rightarrow> bool" where
  "hasGss exportTotals importTotals = (list_ex isGss exportTotals \<or> list_ex isGss importTotals)"

definition gssTotal :: "bool \<Rightarrow> (string \<times> jsnum) list \<Rightarrow> jsnum" where
  "gssTotal has totals =
     foldl (\<lambda>sum t. js_add sum (if isFinite (snd t) then snd t else Fin 0)) (Fin 0)
       (if has then filter isGss totals else totals)"

subsection \<open>One row\<close>

definition date_of :: "runtime \<Rightarrow> row \<Rightarrow> string" where
  "date_of rt row =
     (let dateRaw = get row ''Date''
      in case dateRaw of
           JStr s \<Rightarrow> trim s
         | _ \<Rightarrow> trim (String_js rt (coalesce dateRaw (JStr []))))"

definition validDate :: "string \<Rightarrow> bool" where
  "validDate date = (date \<noteq> [] \<and> isValidDDMMYYYY (JStr date))"

definition dateErrors :: "string list \<Rightarrow> string \<Rightarrow> string list" where
  "dateErrors seenDates date =
     (if \<not> validDate date then [''Date must be in format DD-MM-YYYY (e.g., 01-12-2024)'']
      else if date \<in> set seenDates then [''No duplicate dates allowed'']
      else [])"

definition startTimeUser :: "runtime \<Rightarrow> row \<Rightarrow> string option" where
  "startTimeUser rt row =
     normalizeHHMM rt (coalesce (get row ''Start Time'')
                        (coalesce (get row ''StartTime'') (get row ''Start'')))"

definition stopTimeUser :: "runtime \<Rightarrow> row \<Rightarrow> string option" where
  "stopTimeUser rt row =
     normalizeHHMM rt (coalesce (get row ''Stop Time'')
                        (coalesce (get row ''StopTime'') (get row ''Stop'')))"

text \<open>A \<open>string | null\<close> used as a condition: a string that is not empty.\<close>

definition given :: "string option \<Rightarrow> bool" where
  "given t = (case t of Some s \<Rightarrow> s \<noteq> [] | None \<Rightarrow> False)"

definition validTime :: "string option \<Rightarrow> bool" where
  "validTime t = (case t of Some s \<Rightarrow> isValidHHMM (JStr s) | None \<Rightarrow> False)"

definition timeErrors :: "runtime \<Rightarrow> row \<Rightarrow> string list" where
  "timeErrors rt row =
     (if given (startTimeUser rt row) \<and> \<not> validTime (startTimeUser rt row)
      then [''Start Time must be HH:MM (24-hour)''] else []) @
     (if given (stopTimeUser rt row) \<and> \<not> validTime (stopTimeUser rt row)
      then [''Stop Time must be HH:MM (24-hour)''] else [])"

definition hasStartStop :: "runtime \<Rightarrow> row \<Rightarrow> bool" where
  "hasStartStop rt row =
     (given (startTimeUser rt row) \<and> given (stopTimeUser rt row) \<and>
      validTime (startTimeUser rt row) \<and> validTime (stopTimeUser rt row))"

definition readingKeys :: "row \<Rightarrow> string list" where
  "readingKeys row = filter isReadingKey (keys row)"

definition either_or :: string where
  "either_or = ''Each date must have either Start/Stop times OR Export/Import readings''"

definition rowErrors :: "runtime \<Rightarrow> string list \<Rightarrow> row \<Rightarrow> string list" where
  "rowErrors rt seenDates row =
     (let e = dateErrors seenDates (date_of rt row) @ timeErrors rt row;
          st = foldl (reading_step rt row) (e, False) (readingKeys row)
      in if \<not> hasStartStop rt row \<and> \<not> snd st then fst st @ [either_or] else fst st)"

text \<open>An object literal \<open>{ ...row, k1: v1, ... }\<close>: a key the row has keeps its place and
  takes the new value, a new key goes to the end.\<close>

definition assign :: "row \<Rightarrow> row \<Rightarrow> row" where
  "assign r kvs = foldl (\<lambda>acc kv. AList.update (fst kv) (snd kv) acc) r kvs"

definition enrichRow :: "runtime \<Rightarrow> (string \<Rightarrow> row list) \<Rightarrow> row \<Rightarrow> row" where
  "enrichRow rt wbd row =
     (let date = date_of rt row;
          pts = (if validDate date then points rt (wbd date) else []);
          start = (if validDate date then plantStartTime pts else ''00:00'');
          stop = (if validDate date then plantStopTime pts else ''00:00'');
          tot = total_of start stop;
          exportTotals = computePairs rt row Export;
          importTotals = computePairs rt row Import;
          has = hasGss exportTotals importTotals;
          gssExportTotal = gssTotal has exportTotals;
          gssImportTotal = gssTotal has importTotals;
          netExportAtGss = js_sub gssExportTotal gssImportTotal
      in assign row
           ([(''Plant Start Time'', JStr start), (''Plant Stop Time'', JStr stop),
             (''Total'', JStr tot)] @
            computed_of Export exportTotals @ computed_of Import importTotals @
            [(''GSS Export Total'', JNum gssExportTotal),
             (''GSS Import Total'', JNum gssImportTotal),
             (''Net Export @GSS'', JNum netExportAtGss)]))"

definition seenAfter :: "string list \<Rightarrow> string \<Rightarrow> string list" where
  "seenAfter seenDates date = (if validDate date then date # seenDates else seenDates)"

subsection \<open>The batch\<close>

text \<open>\<open>rows.map((row, index) => ...)\<close> with the set \<open>seenDates\<close> carried along: the
  enriched row and the \<open>rowErrors\<close> of every row.\<close>

fun validate_loop ::
  "runtime \<Rightarrow> (string \<Rightarrow> row list) \<Rightarrow> string list \<Rightarrow> row list \<Rightarrow> (row \<times> string list) list" where
  "validate_loop rt wbd seenDates [] = []"
| "validate_loop rt wbd seenDates (row # rest) =
     (enrichRow rt wbd row, rowErrors rt seenDates row) #
     validate_loop rt wbd (seenAfter seenDates (date_of rt row)) rest"

type_synonym RowError = "nat \<times> string list"

record ValidationResult =
  v_rows :: "row list"
  v_errors :: "RowError list"
  v_isValid :: bool

text \<open>\<open>if (rowErrors.length) errors.push({ rowNumber: index + 2, errors: rowErrors })\<close>\<close>

definition collectErrors :: "string list list \<Rightarrow> RowError list" where
  "collectErrors es = filter (\<lambda>re. snd re \<noteq> []) (zip [2 ..< 2 + length es] es)"

definition validateRowsWith :: "runtime \<Rightarrow> weather_find \<Rightarrow> row list \<Rightarrow> ValidationResult" where
  "validateRowsWith rt Weather_find rows =
     (let wbd = weatherByDate rt (uniqueDates rows) (allWeatherRows rt Weather_find rows);
          res = validate_loop rt wbd [] rows;
          errs = collectErrors (map snd res)
      in \<lparr>v_rows = map fst res, v_errors = errs, v_isValid = (length errs = 0)\<rparr>)"

text \<open>The service: the cached model and the \<open>Weather\<close> entry of the connection's models.
  \<open>getWeatherModel\<close> throws when the model is not registered, and caches it otherwise.\<close>

datatype error = BadRequestException string

record MeterValidateService =
  weatherModel :: "weather_find option"
  connection_models_Weather :: "weather_find option"

definition getWeatherModel :: "MeterValidateService \<Rightarrow> error + weather_find \<times> MeterValidateService" where
  "getWeatherModel this =
     (case weatherModel this of
        Some m \<Rightarrow> Inr (m, this)
      | None \<Rightarrow>
          (case connection_models_Weather this of
             None \<Rightarrow> Inl (BadRequestException
               ''Weather model not found. Ensure WeatherModule is loaded and registers Weather schema.'')
           | Some model \<Rightarrow> Inr (model, this\<lparr>weatherModel := Some model\<rparr>)))"

definition validateRows ::
  "runtime \<Rightarrow> MeterValidateService \<Rightarrow> row list \<Rightarrow> error + ValidationResult \<times> MeterValidateService" where
  "validateRows rt this rows =
     (case getWeatherModel this of
        Inl e \<Rightarrow> Inl e
      | Inr (Weather, this') \<Rightarrow> Inr (validateRowsWith rt Weather rows, this'))"

section \<open>Weather validation (\<open>WeatherValidateService\<close>)\<close>

text \<open>\<open>checkRange\<close>: the defects it pushes, none or one.\<close>

definition checkRange :: "runtime \<Rightarrow> jsval \<Rightarrow> nat \<Rightarrow> nat \<Rightarrow> string \<Rightarrow> bool \<Rightarrow> string list" where
  "checkRange rt v mn mx field allowZero =
     (if v = JNull \<or> v = JUndefined \<or> v = JStr [] then []
      else (let num = Number_js rt v in
            if num = NaN then [field @ '' must be a number'']
            else if \<not> allowZero \<and> num = Fin 0 then [field @ '' cannot be 0'']
            else if js_lt num (Fin (of_nat mn)) \<or> js_gt num (Fin (of_nat mx))
              then [field @ '' must be between '' @ String_nat mn @ '' and '' @ String_nat mx]
            else []))"

text \<open>The last message of the module temperature check ends in a less-or-equal sign, the
  number 100, a degree sign and a C; the two signs are written as their UTF-8 bytes.\<close>

definition moduleTempErrors :: "runtime \<Rightarrow> jsval \<Rightarrow> string list" where
  "moduleTempErrors rt moduleTemp =
     (if moduleTemp = JNull \<or> moduleTemp = JUndefined \<or> moduleTemp = JStr [] then []
      else (let num = Number_js rt moduleTemp in
            if num = NaN then [''Module Temperature must be a number'']
            else if num = Fin 0 then [''Module Temperature cannot be 0'']
            else if js_lt num (Fin 0) then [''Module Temperature cannot be negative'']
            else if js_gt num (Fin 100)
              then [''Module Temperature must be '' @ [CHR 0xE2, CHR 0x89, CHR 0xA4] @ '' 100'' @
                    [CHR 0xC2, CHR 0xB0] @ ''C'']
            else []))"

definition w_date :: "runtime \<Rightarrow> row \<Rightarrow> string" where
  "w_date rt row =
     (let rawDate = coalesce (get row ''Date'') (coalesce (get row ''date'') (JStr []))
      in if truthy rawDate then normalizeDDMMMYY (trim (String_js rt rawDate)) else [])"

definition w_time :: "runtime \<Rightarrow> row \<Rightarrow> string" where
  "w_time rt row =
     (let rawTime = coalesce (get row ''Time'') (coalesce (get row ''time'') (JStr []))
      in if truthy rawTime then w_normalizeHHMM (trim (String_js rt rawTime)) else [])"

definition w_dateErrors :: "string \<Rightarrow> string list" where
  "w_dateErrors date =
     (if date = [] then [''Missing Date'']
      else if \<not> w_isValidDDMMMYY date
        then [''Invalid Date format (expected DD-MMM-YY, e.g., 01-Dec-24)'']
      else [])"

definition w_timeErrors :: "string \<Rightarrow> string list" where
  "w_timeErrors time =
     (if time = [] then [''Missing Time'']
      else if \<not> w_isValidHHMM time
        then [''Invalid Time format (expected HH:MM 24-hour, e.g., 09:30)'']
      else [])"

text \<open>The duplicate check: it runs for a date and a time that are both valid, with the key
  \<open>`${date}_${time}`\<close>.\<close>

definition checked :: "string \<Rightarrow> string \<Rightarrow> bool" where
  "checked date time = (date \<noteq> [] \<and> time \<noteq> [] \<and> w_isValidDDMMMYY date \<and> w_isValidHHMM time)"

definition dateTimeKey :: "string \<Rightarrow> string \<Rightarrow> string" where
  "dateTimeKey date time = date @ ''_'' @ time"

definition duplicate :: string where
  "duplicate = ''Duplicate Date & Time combination''"

definition w_duplicateErrors :: "string list \<Rightarrow> string \<Rightarrow> string \<Rightarrow> string list" where
  "w_duplicateErrors seenDateTime date time =
     (if checked date time \<and> dateTimeKey date time \<in> set seenDateTime then [duplicate] else [])"

definition w_seenAfter :: "string list \<Rightarrow> string \<Rightarrow> string \<Rightarrow> string list" where
  "w_seenAfter seenDateTime date time =
     (if checked date time \<and> dateTimeKey date time \<notin> set seenDateTime
      then dateTimeKey date time # seenDateTime else seenDateTime)"

definition w_rangeErrors :: "runtime \<Rightarrow> row \<Rightarrow> string list" where
  "w_rangeErrors rt row =
     checkRange rt (get row ''POA'') 0 1500 ''POA Pyranometer'' True @
     checkRange rt (get row ''GHI'') 0 1500 ''GHI Pyranometer'' True @
     checkRange rt (get row ''AlbedoUp'') 0 1500 ''Albedo Up'' True @
     checkRange rt (get row ''AlbedoDown'') 0 1500 ''Albedo Down'' True @
     moduleTempErrors rt (get row ''ModuleTemp'') @
     checkRange rt (get row ''AmbientTemp'') 0 100 ''Ambient Temperature'' True @
     checkRange rt (get row ''WindSpeed'') 0 200 ''Wind Speed'' True @
     checkRange rt (get row ''Rainfall'') 0 500 ''Rainfall'' True @
     checkRange rt (get row ''Humidity'') 0 100 ''Humidity'' True"

definition w_rowErrors :: "runtime \<Rightarrow> string list \<Rightarrow> row \<Rightarrow> string list" where
  "w_rowErrors rt seenDateTime row =
     w_dateErrors (w_date rt row) @ w_timeErrors (w_time rt row) @
     w_duplicateErrors seenDateTime (w_date rt row) (w_time rt row) @
     w_rangeErrors rt row"

text \<open>\<open>{ ...row, Date: date || row['Date'], Time: time || row['Time'] }\<close>\<close>

definition w_outRow :: "runtime \<Rightarrow> row \<Rightarrow> row" where
  "w_outRow rt row =
     assign row [(''Date'', js_or (JStr (w_date rt row)) (get row ''Date'')),
                 (''Time'', js_or (JStr (w_time rt row)) (get row ''Time''))]"

fun w_validate_loop :: "runtime \<Rightarrow> string list \<Rightarrow> row list \<Rightarrow> (row \<times> string list) list" where
  "w_validate_loop rt seenDateTime [] = []"
| "w_validate_loop rt seenDateTime (row # rest) =
     (w_outRow rt row, w_rowErrors rt seenDateTime row) #
     w_validate_loop rt (w_seenAfter seenDateTime (w_date rt row) (w_time rt row)) rest"

definition w_validateRows :: "runtime \<Rightarrow> row list \<Rightarrow> ValidationResult" where
  "w_validateRows rt rows =
     (let res = w_validate_loop rt [] rows;
          errs = collectErrors (map snd res)
      in \<lparr>v_rows = map fst res, v_errors = errs, v_isValid = (length errs = 0)\<rparr>)"

section \<open>Submission\<close>

subsection \<open>Weather (\<open>WeatherSubmitService\<close>, \<open>weather-submit.service.ts\<close>)\<close>

text \<open>\<open>toNumber\<close>: 0 for null, undefined, the empty string and whatever \<open>Number\<close> makes
  NaN.\<close>

definition toNumber :: "runtime \<Rightarrow> jsval \<Rightarrow> jsnum" where
  "toNumber rt v =
     (if v = JNull \<or> v = JUndefined \<or> v = JStr [] then Fin 0
      else (let num = Number_js rt v in if num = NaN then Fin 0 else num))"

definition ws_date :: "row \<Rightarrow> jsval" where
  "ws_date row = coalesce (get row ''Date'') (get row ''date'')"

definition ws_time :: "row \<Rightarrow> jsval" where
  "ws_time row = coalesce (get row ''Time'') (get row ''time'')"

text \<open>The document pushed to \<open>docsToInsert\<close> for a row.\<close>

definition weatherDoc :: "runtime \<Rightarrow> row \<Rightarrow> row" where
  "weatherDoc rt row =
     [(''date'', ws_date row), (''time'', ws_time row),
      (''poa'', JNum (toNumber rt (get row ''POA''))),
      (''ghi'', JNum (toNumber rt (get row ''GHI''))),
      (''albedoUp'', JNum (toNumber rt (get row ''AlbedoUp''))),
      (''albedoDown'', JNum (toNumber rt (get row ''AlbedoDown''))),
      (''moduleTemp'', JNum (toNumber rt (get row ''ModuleTemp''))),
      (''ambientTemp'', JNum (toNumber rt (get row ''AmbientTemp''))),
      (''windSpeed'', JNum (toNumber rt (get row ''WindSpeed''))),
      (''rainfall'', JNum (toNumber rt (get row ''Rainfall''))),
      (''humidity'', JNum (toNumber rt (get row ''Humidity'')))]"

text \<open>The loop over the rows. The store is read through \<open>exists\<close>, the query
  \<open>weatherModel.exists({ $or: [{ date, time }, { Date: date, Time: time }] })\<close>; the state
  is \<open>docsToInsert\<close> and \<open>skipped\<close>.\<close>

definition ws_step :: "runtime \<Rightarrow> (jsval \<Rightarrow> jsval \<Rightarrow> bool) \<Rightarrow> row list \<times> nat \<Rightarrow> row \<Rightarrow> row list \<times> nat" where
  "ws_step rt exists st row =
     (if \<not> truthy (ws_date row) \<or> \<not> truthy (ws_time row) then (fst st, snd st + 1)
      else if exists (ws_date row) (ws_time row) then (fst st, snd st + 1)
      else (fst st @ [weatherDoc rt row], snd st))"

record WeatherSubmitResult =
  inserted :: nat
  skipped :: nat
  message :: string

text \<open>\<open>submitRows\<close>: \<open>insertMany\<close> is the store's bulk insert, which may reject; the
  documents handed to it are the first component of the loop's state.\<close>

definition w_submitRows ::
  "runtime \<Rightarrow> (jsval \<Rightarrow> jsval \<Rightarrow> bool) \<Rightarrow> (row list \<Rightarrow> error option) \<Rightarrow> row list \<Rightarrow>
     error + WeatherSubmitResult" where
  "w_submitRows rt exists insertMany rows =
     (if length rows = 0 then Inr \<lparr>inserted = 0, skipped = 0, message = ''No data provided''\<rparr>
      else (let st = foldl (ws_step rt exists) ([], 0) rows;
                docsToInsert = fst st; skipped = snd st
            in case (if length docsToInsert > 0 then insertMany docsToInsert else None) of
                 Some e \<Rightarrow> Inl e
               | None \<Rightarrow>
                   Inr \<lparr>inserted = length docsToInsert, skipped = skipped,
                        message = ''Weather data submission completed. '' @
                          String_nat (length docsToInsert) @ '' inserted, '' @
                          String_nat skipped @ '' skipped.''\<rparr>))"

subsection \<open>Meter (\<open>MeterSubmitService\<close>, the later version in \<open>meter-submit.service.ts\<close>)\<close>

text \<open>\<open>num\<close>, with \<open>None\<close> for null.\<close>

definition num :: "runtime \<Rightarrow> jsval \<Rightarrow> jsnum option" where
  "num rt v =
     (if v = JNull \<or> v = JUndefined \<or> v = JStr [] then None
      else (let n = Number_js rt v in if isFinite n then Some n else None))"

definition num_or_0 :: "runtime \<Rightarrow> jsval \<Rightarrow> jsval" where
  "num_or_0 rt v = (case num rt v of Some n \<Rightarrow> JNum n | None \<Rightarrow> JNum (Fin 0))"

definition ms_date :: "runtime \<Rightarrow> row \<Rightarrow> string" where
  "ms_date rt r = trim (String_js rt (coalesce (get r ''Date'') (coalesce (get r ''date'') (JStr []))))"

definition ms_time :: "runtime \<Rightarrow> row \<Rightarrow> string" where
  "ms_time rt r =
     trim (String_js rt (coalesce (get r ''Time'') (coalesce (get r ''time'') (JStr ''00:00''))))"

text \<open>\<open>WeatherService.getWeatherByDate\<close>: one query for the date's variations.\<close>

definition getWeatherByDate :: "weather_find \<Rightarrow> string \<Rightarrow> row list" where
  "getWeatherByDate Weather_find date =
     Weather_find (concat (map (\<lambda>d. [(''date'', d), (''Date'', d)]) (getDateVariations date)))"

definition ms_toPoint :: "runtime \<Rightarrow> row \<Rightarrow> point" where
  "ms_toPoint rt w =
     (let tRaw = coalesce (get w ''time'') (coalesce (get w ''Time'') (JStr []));
          t = normalizeHHMM rt (JStr (String_js rt tRaw));
          poa = Number_js rt (coalesce (get w ''poa'') (coalesce (get w ''POA'')
                  (coalesce (get w ''POA Meter 1'') (get w ''POA_Meter_1''))))
      in ((case t of Some s \<Rightarrow> take 5 s | None \<Rightarrow> []),
          (if isFinite poa then poa else NaN)))"

definition ms_points :: "runtime \<Rightarrow> row list \<Rightarrow> point list" where
  "ms_points rt weatherData =
     sort_key (\<lambda>p. timeToMinutes (fst p)) (filter keepPoint (map (ms_toPoint rt) weatherData))"

definition meterDoc :: "runtime \<Rightarrow> weather_find \<Rightarrow> row \<Rightarrow> row" where
  "meterDoc rt Weather_find r =
     (let date = ms_date rt r; time = ms_time rt r;
          pts = ms_points rt (getWeatherByDate Weather_find date);
          start = plantStartTime pts; stop = plantStopTime pts
      in [(''date'', JStr date), (''time'', JStr time),
          (''plantStartTime'', JStr start), (''plantStopTime'', JStr stop),
          (''total'', JStr (total_of start stop)),
          (''activeEnergyImport'',
             num_or_0 rt (coalesce (get r ''ActiveEnergyImport'') (get r ''activeEnergyImport''))),
          (''activeEnergyExport'', num_or_0 rt (get r ''GSS Export Total'')),
          (''reactiveEnergyImport'',
             num_or_0 rt (coalesce (get r ''ReactiveEnergyImport'') (get r ''reactiveEnergyImport''))),
          (''reactiveEnergyExport'',
             num_or_0 rt (coalesce (get r ''ReactiveEnergyExport'') (get r ''reactiveEnergyExport''))),
          (''voltage'', num_or_0 rt (coalesce (get r ''Voltage'') (get r ''voltage''))),
          (''current'', num_or_0 rt (coalesce (get r ''Current'') (get r ''current''))),
          (''frequency'', num_or_0 rt (coalesce (get r ''Frequency'') (get r ''frequency''))),
          (''powerFactor'', num_or_0 rt (coalesce (get r ''PowerFactor'') (get r ''powerFactor''))),
          (''status'', coalesce (get r ''status'') (coalesce (get r ''Status'') (JStr ''draft'')))])"

text \<open>An operation of \<open>bulkWrite\<close>: \<open>{ updateOne: { filter, update: { $set }, upsert } }\<close>.\<close>

datatype bulk_op = UpdateOne (op_filter: row) (op_set: row) (op_upsert: bool)

definition meterOp :: "runtime \<Rightarrow> weather_find \<Rightarrow> row \<Rightarrow> bulk_op" where
  "meterOp rt Weather_find r =
     (let doc = meterDoc rt Weather_find r
      in UpdateOne [(''date'', get doc ''date''), (''time'', get doc ''time'')] doc True)"

text \<open>\<open>rows.map(...)\<close>: it throws at the first row without a date.\<close>

fun meterOps :: "runtime \<Rightarrow> weather_find \<Rightarrow> row list \<Rightarrow> error + bulk_op list" where
  "meterOps rt Weather_find [] = Inr []"
| "meterOps rt Weather_find (r # rest) =
     (if ms_date rt r = [] then Inl (BadRequestException ''Each row must contain Date'')
      else (case meterOps rt Weather_find rest of
              Inl e \<Rightarrow> Inl e
            | Inr ops \<Rightarrow> Inr (meterOp rt Weather_find r # ops)))"

text \<open>What \<open>bulkWrite\<close> resolves to, each count possibly undefined, and what \<open>submitRows\<close>
  returns.\<close>

record BulkWriteResult =
  r_insertedCount :: "nat option"
  r_matchedCount :: "nat option"
  r_modifiedCount :: "nat option"
  r_upsertedCount :: "nat option"

record MeterSubmitResult =
  insertedCount :: nat
  matchedCount :: nat
  modifiedCount :: nat
  upsertedCount :: nat

definition or_0 :: "nat option \<Rightarrow> nat" where
  "or_0 n = (case n of Some k \<Rightarrow> k | None \<Rightarrow> 0)"

definition submitRows ::
  "runtime \<Rightarrow> weather_find \<Rightarrow> (bulk_op list \<Rightarrow> error + BulkWriteResult) \<Rightarrow> row list \<Rightarrow>
     error + MeterSubmitResult" where
  "submitRows rt Weather_find bulkWrite rows =
     (case meterOps rt Weather_find rows of
        Inl e \<Rightarrow> Inl e
      | Inr ops \<Rightarrow>
          (case bulkWrite ops of
             Inl e \<Rightarrow> Inl e
           | Inr result \<Rightarrow>
               Inr \<lparr>insertedCount = or_0 (r_insertedCount result),
                    matchedCount = or_0 (r_matchedCount result),
                    modifiedCount = or_0 (r_modifiedCount result),
                    upsertedCount = or_0 (r_upsertedCount result)\<rparr>))"

section \<open>Auxiliary definitions for the statements\<close>

text \<open>The month segments from 01 to 12.\<close>

definition month_strs :: "string list" where
  "month_strs = [''01'', ''02'', ''03'', ''04'', ''05'', ''06'', ''07'', ''08'', ''09'', ''10'', ''11'', ''12'']"

text \<open>A runtime for evaluating examples: \<open>Number\<close> of a string that is not a run of decimal
  digits is NaN, and every number prints as \<open>0\<close>. The examples use neither.\<close>

definition sample_runtime :: runtime where
  "sample_runtime = \<lparr>str_to_num = (\<lambda>s. NaN), num_to_str = (\<lambda>n. ''0'')\<rparr>"









text \<open>A weather store for evaluating examples: it answers a \<open>$or\<close> of field equalities
  over a list of documents.\<close>

definition sample_find :: "row list \<Rightarrow> weather_find" where
  "sample_find docs conds = filter (\<lambda>w. list_ex (\<lambda>c. get w (fst c) = JStr (snd c)) conds) docs"

text \<open>Five weather documents of 22-Jun-25, out of order, and a service whose connection
  has that store registered.\<close>

definition sample_weather :: "row list" where
  "sample_weather =
     [[(''date'', JStr ''22-Jun-25''), (''time'', JStr ''18:30''), (''poa'', JNum (Fin 30))],
      [(''date'', JStr ''22-Jun-25''), (''time'', JStr ''06:00''), (''poa'', JNum (Fin 12))],
      [(''date'', JStr ''22-Jun-25''), (''time'', JStr ''12:00''), (''poa'', JNum (Fin 800))],
      [(''date'', JStr ''22-Jun-25''), (''time'', JStr ''19:00''), (''poa'', JNum (Fin 0))],
      [(''date'', JStr ''22-Jun-25''), (''time'', JStr ''05:30''), (''poa'', JNum (Fin 4))]]"

definition sample_service :: MeterValidateService where
  "sample_service =
     \<lparr>weatherModel = None, connection_models_Weather = Some (sample_find sample_weather)\<rparr>"

text \<open>A batch of two meter rows: one with a pair of readings, one with a date only.\<close>

definition sample_rows :: "row list" where
  "sample_rows =
     [[(''Date'', JStr ''22-06-2025''), (''Export1 Initial'', JNum (Fin 100)),
       (''Export1 Final'', JNum (Fin 150))],
      [(''Date'', JStr ''23-06-2025'')]]"


text \<open>The defects reported for a row number: the \<open>errors\<close> of its \<open>RowError\<close>, none
  when the result has no entry for it.\<close>

definition errors_of :: "ValidationResult \<Rightarrow> nat \<Rightarrow> string list" where
  "errors_of res n = (case map_of (v_errors res) n of Some es \<Rightarrow> es | None \<Rightarrow> [])"




text \<open>The keys that \<open>seenDateTime\<close> holds after the loop has gone through \<open>rows\<close>.\<close>

definition w_seenBefore :: "runtime \<Rightarrow> string list \<Rightarrow> row list \<Rightarrow> string list" where
  "w_seenBefore rt seen rows = foldl (\<lambda>s r. w_seenAfter s (w_date rt r) (w_time rt r)) seen rows"

text \<open>Weather rows for evaluating examples: the same instant written in two ways, and a
  pair with a one-digit day twice.\<close>

definition sample_weather_rows :: "row list" where
  "sample_weather_rows =
     [[(''Date'', JStr ''01-Dec-24''), (''Time'', JStr ''9:30''), (''POA'', JStr ''12'')],
      [(''Date'', JStr ''01-dec-24''), (''Time'', JStr ''09:30:00''), (''POA'', JStr ''13'')]]"

definition sample_invalid_rows :: "row list" where
  "sample_invalid_rows =
     [[(''Date'', JStr ''1-Dec-24''), (''Time'', JStr ''09:30'')],
      [(''Date'', JStr ''1-Dec-24''), (''Time'', JStr ''09:30'')]]"

text \<open>The documents that \<open>submitRows\<close> of the weather service hands to \<open>insertMany\<close>, and
  the number of rows it skips.\<close>

definition docsToInsert :: "runtime \<Rightarrow> (jsval \<Rightarrow> jsval \<Rightarrow> bool) \<Rightarrow> row list \<Rightarrow> row list" where
  "docsToInsert rt exists rows = fst (foldl (ws_step rt exists) ([], 0) rows)"

definition skipped_rows :: "runtime \<Rightarrow> (jsval \<Rightarrow> jsval \<Rightarrow> bool) \<Rightarrow> row list \<Rightarrow> nat" where
  "skipped_rows rt exists rows = snd (foldl (ws_step rt exists) ([], 0) rows)"

text \<open>A row is kept by the weather submission when it has a date and a time and the
  store has no record of that date and time.\<close>

definition ws_kept :: "(jsval \<Rightarrow> jsval \<Rightarrow> bool) \<Rightarrow> row \<Rightarrow> bool" where
  "ws_kept exists row =
     (truthy (ws_date row) \<and> truthy (ws_time row) \<and> \<not> exists (ws_date row) (ws_time row))"

text \<open>The sensor columns of a weather row and the fields of the document they are stored
  in.\<close>

definition sensor_fields :: "(string \<times> string) list" where
  "sensor_fields =
     [(''POA'', ''poa''), (''GHI'', ''ghi''), (''AlbedoUp'', ''albedoUp''),
      (''AlbedoDown'', ''albedoDown''), (''ModuleTemp'', ''moduleTemp''),
      (''AmbientTemp'', ''ambientTemp''), (''WindSpeed'', ''windSpeed''),
      (''Rainfall'', ''rainfall''), (''Humidity'', ''humidity'')]"

text \<open>A cell holds no number: it is null, undefined, a blank string, or \<open>Number\<close> makes
  it NaN.\<close>

definition no_number :: "runtime \<Rightarrow> jsval \<Rightarrow> bool" where
  "no_number rt v =
     (v = JNull \<or> v = JUndefined \<or> (case v of JStr s \<Rightarrow> trim s = [] | _ \<Rightarrow> False) \<or>
      Number_js rt v = NaN)"

text \<open>For evaluating examples of submission: a store that has a record of 01-Dec-24 09:00
  and accepts every insert, three weather rows (the second without a date, the third
  already stored), a store that answers every bulk write with as many upserts as
  operations, and two meter rows, the second without a date.\<close>

definition sample_exists :: "jsval \<Rightarrow> jsval \<Rightarrow> bool" where
  "sample_exists d t = (d = JStr ''01-Dec-24'' \<and> t = JStr ''09:00'')"

definition sample_insertMany :: "row list \<Rightarrow> error option" where
  "sample_insertMany docs = None"

definition sample_submit_rows :: "row list" where
  "sample_submit_rows =
     [[(''Date'', JStr ''01-Dec-24''), (''Time'', JStr ''09:30''), (''POA'', JStr []),
       (''GHI'', JNull), (''AlbedoUp'', JStr ''n/a''), (''ModuleTemp'', JStr ''25'')],
      [(''Time'', JStr ''09:45''), (''POA'', JStr ''3'')],
      [(''Date'', JStr ''01-Dec-24''), (''Time'', JStr ''09:00''), (''POA'', JStr ''7'')]]"

definition sample_bulkWrite :: "bulk_op list \<Rightarrow> error + BulkWriteResult" where
  "sample_bulkWrite ops =
     Inr \<lparr>r_insertedCount = None, r_matchedCount = Some 0, r_modifiedCount = Some 0,
          r_upsertedCount = Some (length ops)\<rparr>"

definition sample_meter_rows :: "row list" where
  "sample_meter_rows =
     [[(''Date'', JStr ''22-06-2025''), (''GSS Export Total'', JNum (Fin 50))],
      [(''Time'', JStr ''10:00''), (''GSS Export Total'', JNum (Fin 7))]]"

text \<open>A meter row whose final reading is below the initial one.\<close>

definition sample_swapped_rows :: "row list" where
  "sample_swapped_rows =
     [[(''Date'', JStr ''22-06-2025''), (''Export1 Initial'', JNum (Fin 150)),
       (''Export1 Final'', JNum (Fin 100))]]"

text \<open>Validating a batch and then validating the rows that the first validation returned,
  with the service as the first validation left it.\<close>

definition revalidate ::
  "runtime \<Rightarrow> MeterValidateService \<Rightarrow> row list \<Rightarrow> error + ValidationResult \<times> MeterValidateService" where
  "revalidate rt this rows =
     (case validateRows rt this rows of
        Inl e \<Rightarrow> Inl e
      | Inr (res, this') \<Rightarrow> validateRows rt this' (v_rows res))"

section \<open>Strings: splitting, trimming, digits\<close>

lemma split_by_ne: "split_by P s \<noteq> []"
  by (induction s) (auto split: list.splits)

lemma split_by_Cons:
  "split_by P s = p # ps \<Longrightarrow>
     list_all (\<lambda>c. \<not> P c) p \<and>
     (if ps = [] then s = p else (\<exists>x rest. P x \<and> s = p @ x # rest \<and> split_by P rest = ps))"
proof (induction s arbitrary: p ps)
  case Nil
  then show ?case by simp
next
  case (Cons a s)
  show ?case
  proof (cases "P a")
    case True
    with Cons.prems show ?thesis by (auto simp: split_by_ne)
  next
    case False
    obtain q qs where q: "split_by P s = q # qs"
      using split_by_ne [of P s] by (cases "split_by P s") auto
    with False Cons.prems have p: "p = a # q" "ps = qs" by auto
    from Cons.IH [OF q] False p show ?thesis by auto
  qed
qed

lemma split_by_none: "list_all (\<lambda>c. \<not> P c) s \<Longrightarrow> split_by P s = [s]"
  by (induction s) auto

lemma split_by_append:
  "list_all (\<lambda>c. \<not> P c) s \<Longrightarrow> P x \<Longrightarrow> split_by P (s @ x # xs) = s # split_by P xs"
  by (induction s) auto


lemma split_on_3:
  assumes "split_on c s = [p, q, r]"
  shows "s = p @ c # q @ c # r"
proof -
  from assms have a: "split_by (\<lambda>x. x = c) s = p # [q, r]" by (simp add: split_on_def)
  from split_by_Cons [OF a] obtain rest where
    s: "s = p @ c # rest" and r: "split_by (\<lambda>x. x = c) rest = q # [r]" by auto
  from split_by_Cons [OF r] obtain rest2 where
    s2: "rest = q @ c # rest2" and r2: "split_by (\<lambda>x. x = c) rest2 = r # []" by auto
  from split_by_Cons [OF r2] have "rest2 = r" by simp
  with s s2 show ?thesis by simp
qed

lemma split_on_join2:
  assumes "c \<notin> set p" "c \<notin> set q"
  shows "split_on c (p @ c # q) = [p, q]"
proof -
  have n: "list_all (\<lambda>x. \<not> x = c) p" "list_all (\<lambda>x. \<not> x = c) q"
    using assms by (auto simp: list_all_iff)
  show ?thesis
    unfolding split_on_def
    by (simp add: split_by_append [OF n(1)] split_by_none [OF n(2)])
qed

lemma split_on_join3:
  assumes "c \<notin> set p" "c \<notin> set q" "c \<notin> set r"
  shows "split_on c (p @ c # q @ c # r) = [p, q, r]"
proof -
  have n: "list_all (\<lambda>x. \<not> x = c) p" "list_all (\<lambda>x. \<not> x = c) q" "list_all (\<lambda>x. \<not> x = c) r"
    using assms by (auto simp: list_all_iff)
  show ?thesis
    unfolding split_on_def
    by (simp add: split_by_append [OF n(1)] split_by_append [OF n(2)] split_by_none [OF n(3)])
qed

lemma not_isDigit_sep: "\<not> isDigit (CHR ''-'')" "\<not> isDigit (CHR '':'')" "\<not> isDigit (CHR ''/'')"
  by (simp_all add: isDigit_def)

lemma not_isAlpha_sep: "\<not> isAlpha (CHR ''-'')" "\<not> isAlpha (CHR '':'')" "\<not> isAlpha (CHR ''/'')"
  by (simp_all add: isAlpha_def isUpper_def isLower_def)

lemma isDigit_not_dash: "list_all isDigit s \<Longrightarrow> CHR ''-'' \<notin> set s"
  using not_isDigit_sep by (auto simp: list_all_iff)

lemma isAlpha_not_dash: "list_all isAlpha s \<Longrightarrow> CHR ''-'' \<notin> set s"
  using not_isAlpha_sep by (auto simp: list_all_iff)

lemma isDigit_not_colon: "list_all isDigit s \<Longrightarrow> CHR '':'' \<notin> set s"
  using not_isDigit_sep by (auto simp: list_all_iff)

lemma isDigit_not_space: "isDigit c \<Longrightarrow> \<not> isSpace c"
  by (auto simp: isDigit_def isSpace_def)

lemma isDigit_cases:
  "isDigit c \<Longrightarrow> c = CHR ''0'' \<or> c = CHR ''1'' \<or> c = CHR ''2'' \<or> c = CHR ''3'' \<or> c = CHR ''4'' \<or>
     c = CHR ''5'' \<or> c = CHR ''6'' \<or> c = CHR ''7'' \<or> c = CHR ''8'' \<or> c = CHR ''9''"
  by (auto simp: isDigit_def)

lemma trim_id: "list_all (\<lambda>c. \<not> isSpace c) s \<Longrightarrow> trim s = s"
proof (cases s rule: rev_cases)
  case Nil
  then show ?thesis by (simp add: trim_def)
next
  case (snoc ys y)
  assume a: "list_all (\<lambda>c. \<not> isSpace c) s"
  then have "dropWhile isSpace s = s" by (cases s) auto
  moreover have "dropWhile isSpace (rev s) = rev s" using a snoc by auto
  ultimately show ?thesis by (simp add: trim_def)
qed

lemma Number_str_digits:
  assumes "s \<noteq> []" "list_all isDigit s"
  shows "Number_str rt s = Fin (of_nat (dec s))"
proof -
  have "list_all (\<lambda>c. \<not> isSpace c) s"
    using assms(2) by (auto simp: list_all_iff isDigit_not_space)
  then have "trim s = s" by (rule trim_id)
  with assms show ?thesis by (simp add: Number_str_def)
qed

lemma len2: "length s = 2 \<Longrightarrow> \<exists>a b. s = [a, b]"
  by (cases s; cases "tl s") auto

lemma dec2: "dec [a, b] = 10 * digitVal a + digitVal b"
  by (simp add: dec_def)

lemma digitVal_le: "digitVal c \<le> 9"
  by (cases "isDigit c") (auto simp: digitVal_def isDigit_def split: option.splits if_splits)


section \<open>The two date dialects and ISO denote one date\<close>

lemma month_in:
  assumes "digitsN 2 2 mm" "1 \<le> dec mm" "dec mm \<le> 12"
  shows "mm \<in> set month_strs"
proof -
  from assms(1) obtain a b where mm: "mm = [a, b]" and d: "isDigit a" "isDigit b"
    using len2 [of mm] by (auto simp: digitsN_def)
  have r: "1 \<le> 10 * digitVal a + digitVal b" "10 * digitVal a + digitVal b \<le> 12"
    using assms(2,3) unfolding mm dec2 by simp_all
  have a: "a = CHR ''0'' \<or> a = CHR ''1''"
    using isDigit_cases [OF d(1)] r(2) by (elim disjE) (simp_all add: digitVal_def)
  from a show ?thesis
  proof
    assume a0: "a = CHR ''0''"
    show ?thesis using isDigit_cases [OF d(2)] r(1) unfolding mm a0 month_strs_def
      by (elim disjE) (simp_all add: digitVal_def)
  next
    assume a1: "a = CHR ''1''"
    show ?thesis using isDigit_cases [OF d(2)] r(2) unfolding mm a1 month_strs_def
      by (elim disjE) (simp_all add: digitVal_def)
  qed
qed

lemma month_name_nat: "month_name (of_nat n) = MONTHS ! (n - 1)"
  by (simp add: month_name_def)

lemma month_props_all:
  "list_all (\<lambda>mm. alphaN 3 (MONTHS ! (dec mm - 1)) \<and>
      findIndex (\<lambda>m. toLowerCase m = toLowerCase (MONTHS ! (dec mm - 1))) MONTHS = Some (dec mm - 1) \<and>
      padStart 2 (CHR ''0'') (String_nat (dec mm - 1 + 1)) = mm \<and>
      int (dec mm) - 1 \<ge> 0 \<and> int (dec mm) - 1 < 12) month_strs"
  by code_simp

lemma month_props:
  assumes "mm \<in> set month_strs"
  shows "alphaN 3 (MONTHS ! (dec mm - 1))"
    and "findIndex (\<lambda>m. toLowerCase m = toLowerCase (MONTHS ! (dec mm - 1))) MONTHS = Some (dec mm - 1)"
    and "padStart 2 (CHR ''0'') (String_nat (dec mm - 1 + 1)) = mm"
    and "int (dec mm) - 1 \<ge> 0 \<and> int (dec mm) - 1 < 12"
  using assms month_props_all unfolding list_all_iff by blast+

lemma len4: "length s = 4 \<Longrightarrow> \<exists>a b c d. s = [a, b, c, d]"
  apply (cases s, simp)
  subgoal for a s1 apply (cases s1, simp)
    subgoal for b s2 apply (cases s2, simp)
      subgoal for c s3 by (cases s3) auto
      done
    done
  done

lemma dec4: "dec [a, b, c, d] = 1000 * digitVal a + 100 * digitVal b + 10 * digitVal c + digitVal d"
  by (simp add: dec_def)

lemma year_20:
  assumes "digitsN 4 4 y" "2000 \<le> dec y" "dec y \<le> 2099"
  shows "\<exists>yy. y = ''20'' @ yy \<and> digitsN 2 2 yy"
proof -
  from assms(1) obtain a b c d where y: "y = [a, b, c, d]"
    and dg: "isDigit a" "isDigit b" "isDigit c" "isDigit d"
    using len4 [of y] by (auto simp: digitsN_def)
  have r: "2000 \<le> 1000 * digitVal a + 100 * digitVal b + 10 * digitVal c + digitVal d"
    "1000 * digitVal a + 100 * digitVal b + 10 * digitVal c + digitVal d \<le> 2099"
    using assms(2,3) unfolding y dec4 by simp_all
  have c: "digitVal c \<le> 9" "digitVal d \<le> 9" "digitVal b \<le> 9" by (rule digitVal_le)+
  have a: "a = CHR ''2''"
    using isDigit_cases [OF dg(1)] r c by (elim disjE) (simp_all add: digitVal_def)
  have b: "b = CHR ''0''"
    using isDigit_cases [OF dg(2)] r c unfolding a by (elim disjE) (simp_all add: digitVal_def)
  show ?thesis using y a b dg by (simp add: digitsN_def)
qed


lemma slice_last_2_year: "length yy = 2 \<Longrightarrow> slice_last 2 (''20'' @ yy) = yy"
  by (simp add: slice_last_def)

text \<open>
  Claim C8. For every \<open>DD-MM-YYYY\<close> string (two digits, two digits, four digits) whose
  year is from 2000 to 2099 and whose month is from 01 to 12, \<open>ddmmyyyyToDDMMMYY\<close> gives a
  string of the \<open>DD-MMM-YY\<close> shape, and \<open>getDateVariations\<close> of that string is the
  string itself, then the original \<open>DD-MM-YYYY\<close> string, then the ISO string that
  \<open>ddmmyyyyToISO\<close> gives for the original.
\<close>

theorem date_round_trip:
  assumes v: "match_ddmmyyyy d"
    and y: "2000 \<le> dec (drop 6 d)" "dec (drop 6 d) \<le> 2099"
    and m: "1 \<le> dec (take 2 (drop 3 d))" "dec (take 2 (drop 3 d)) \<le> 12"
  shows "match_ddmmmyy (ddmmyyyyToDDMMMYY rt d) \<and>
         getDateVariations (ddmmyyyyToDDMMMYY rt d) = [ddmmyyyyToDDMMMYY rt d, d, ddmmyyyyToISO d]"
proof -
  from v obtain dd mm yyyy where sp: "split_on CHR ''-'' d = [dd, mm, yyyy]"
    and sh: "digitsN 2 2 dd" "digitsN 2 2 mm" "digitsN 4 4 yyyy"
    by (auto simp: match_ddmmyyyy_def split: list.splits)
  have d: "d = dd @ CHR ''-'' # mm @ CHR ''-'' # yyyy" by (rule split_on_3 [OF sp])
  have len: "length dd = 2" "length mm = 2" "length yyyy = 4"
    using sh by (auto simp: digitsN_def)
  have tk: "take 2 (drop 3 d) = mm" "drop 6 d = yyyy" using len by (simp_all add: d)
  have mm_in: "mm \<in> set month_strs" using month_in [OF sh(2)] m by (simp add: tk)
  obtain yy where yy: "yyyy = ''20'' @ yy" "digitsN 2 2 yy"
    using year_20 [OF sh(3)] y by (auto simp: tk)
  define mon where "mon = MONTHS ! (dec mm - 1)"
  note mp = month_props [OF mm_in, folded mon_def]
  have mm_ne: "mm \<noteq> []" "list_all isDigit mm" using sh(2) by (auto simp: digitsN_def)
  have rng: "1 \<le> dec mm" "dec mm \<le> 12" using m by (simp_all add: tk)
  have w: "ddmmyyyyToDDMMMYY rt d = dd @ CHR ''-'' # mon @ CHR ''-'' # yy"
    using rng len yy
    by (simp add: ddmmyyyyToDDMMMYY_def sp Number_str_digits [OF mm_ne] part_def month_name_nat
        mon_def slice_last_def digitsN_def)
  have nd: "CHR ''-'' \<notin> set dd" "CHR ''-'' \<notin> set mon" "CHR ''-'' \<notin> set yy"
    using sh(1) yy(2) mp(1) by (auto simp: digitsN_def alphaN_def isDigit_not_dash isAlpha_not_dash)
  have spw: "split_on CHR ''-'' (dd @ CHR ''-'' # mon @ CHR ''-'' # yy) = [dd, mon, yy]"
    by (rule split_on_join3 [OF nd])
  have m1: "\<not> match_ddmmyyyy (dd @ CHR ''-'' # mon @ CHR ''-'' # yy)"
    using mp(1) by (simp add: match_ddmmyyyy_def spw digitsN_def alphaN_def)
  have m2: "match_ddmmmyy (dd @ CHR ''-'' # mon @ CHR ''-'' # yy)"
    using mp(1) sh(1) yy(2) by (simp add: match_ddmmmyy_def spw)
  have iso: "ddmmyyyyToISO d = yyyy @ CHR ''-'' # mm @ CHR ''-'' # dd"
    by (simp add: ddmmyyyyToISO_def sp part_def)
  have ne1: "dd @ CHR ''-'' # mon @ CHR ''-'' # yy \<noteq> d"
  proof
    assume "dd @ CHR ''-'' # mon @ CHR ''-'' # yy = d"
    then have "length (dd @ CHR ''-'' # mon @ CHR ''-'' # yy) = length d" by simp
    then show False using len mp(1) yy by (simp add: d alphaN_def digitsN_def)
  qed
  have ne2: "dd @ CHR ''-'' # mon @ CHR ''-'' # yy \<noteq> yyyy @ CHR ''-'' # mm @ CHR ''-'' # dd"
  proof
    assume "dd @ CHR ''-'' # mon @ CHR ''-'' # yy = yyyy @ CHR ''-'' # mm @ CHR ''-'' # dd"
    then have "length (dd @ CHR ''-'' # mon @ CHR ''-'' # yy) = length (yyyy @ CHR ''-'' # mm @ CHR ''-'' # dd)" by simp
    then show False using len mp(1) yy by (simp add: alphaN_def digitsN_def)
  qed
  have ne3: "d \<noteq> yyyy @ CHR ''-'' # mm @ CHR ''-'' # dd"
  proof
    assume e: "d = yyyy @ CHR ''-'' # mm @ CHR ''-'' # dd"
    have "d ! 2 = CHR ''-''" using len by (simp add: d nth_append)
    moreover have "d ! 2 = yyyy ! 2" using len by (subst e) (simp add: nth_append)
    moreover have "isDigit (yyyy ! 2)" using sh(3) by (simp add: digitsN_def list_all_length)
    ultimately show False using not_isDigit_sep(1) by simp
  qed
  have c1: "match_ddmmmyy (ddmmyyyyToDDMMMYY rt d)" using m2 by (simp add: w)
  have "getDateVariations (dd @ CHR ''-'' # mon @ CHR ''-'' # yy)
      = [dd @ CHR ''-'' # mon @ CHR ''-'' # yy, d, yyyy @ CHR ''-'' # mm @ CHR ''-'' # dd]"
    using ne1 ne2 ne3 mp(2,3)
    by (simp add: getDateVariations_def spw m1 m2 Let_def) (simp add: d yy)
  then have "getDateVariations (ddmmyyyyToDDMMMYY rt d) = [ddmmyyyyToDDMMMYY rt d, d, ddmmyyyyToISO d]"
    by (simp add: w iso)
  with c1 show ?thesis by simp
qed

theorem date_round_trip_witness:
  "match_ddmmyyyy ''22-06-2025'' \<and>
   2000 \<le> dec (drop 6 ''22-06-2025'') \<and> dec (drop 6 ''22-06-2025'') \<le> 2099 \<and>
   1 \<le> dec (take 2 (drop 3 ''22-06-2025'')) \<and> dec (take 2 (drop 3 ''22-06-2025'')) \<le> 12 \<and>
   ddmmyyyyToDDMMMYY sample_runtime ''22-06-2025'' = ''22-Jun-25'' \<and>
   getDateVariations ''22-Jun-25'' = [''22-Jun-25'', ''22-06-2025'', ''2025-06-22'']"
proof -
  have h: "match_ddmmyyyy ''22-06-2025''"
    "2000 \<le> dec (drop 6 ''22-06-2025'')" "dec (drop 6 ''22-06-2025'') \<le> 2099"
    "1 \<le> dec (take 2 (drop 3 ''22-06-2025''))" "dec (take 2 (drop 3 ''22-06-2025'')) \<le> 12"
    by code_simp+
  have e: "ddmmyyyyToDDMMMYY sample_runtime ''22-06-2025'' = ''22-Jun-25''"
    "ddmmyyyyToISO ''22-06-2025'' = ''2025-06-22''"
    by code_simp+
  from date_round_trip [OF h, of sample_runtime] h e show ?thesis by simp
qed



section \<open>Normalization passes unparseable input through and collapses times\<close>

lemma digit_roundtrip: "isDigit a \<Longrightarrow> digitChar (digitVal a) = a \<and> digitVal a < 10"
  by (drule isDigit_cases) (elim disjE; simp add: digitChar_def digitVal_def)

lemma digitVal_0: "isDigit a \<Longrightarrow> digitVal a = 0 \<Longrightarrow> a = CHR ''0''"
  by (drule isDigit_cases) (elim disjE; simp add: digitVal_def)

lemma String_nat_dec1: "isDigit a \<Longrightarrow> String_nat (dec [a]) = [a]"
  using digit_roundtrip [of a] by (simp add: dec_def String_nat.simps [of "digitVal a"])

lemma String_nat_dec2:
  assumes "isDigit a" "isDigit b"
  shows "padStart 2 (CHR ''0'') (String_nat (dec [a, b])) = [a, b]"
proof (cases "digitVal a = 0")
  case True
  then have a: "a = CHR ''0''" using assms(1) digitVal_0 by blast
  have "dec [a, b] = digitVal b" using True by (simp add: dec2)
  then show ?thesis using digit_roundtrip [OF assms(2)] a
    by (simp add: String_nat.simps [of "digitVal b"] padStart_def)
next
  case False
  let ?n = "10 * digitVal a + digitVal b"
  have b: "digitVal b < 10" "digitVal a < 10" using digit_roundtrip assms by blast+
  have n: "\<not> ?n < 10" "?n div 10 = digitVal a" "?n mod 10 = digitVal b"
    using False b by simp_all
  have "String_nat ?n = String_nat (digitVal a) @ [digitChar (digitVal b)]"
    using n by (subst String_nat.simps) simp
  also have "String_nat (digitVal a) = [digitChar (digitVal a)]"
    using b by (subst String_nat.simps) simp
  finally show ?thesis using digit_roundtrip assms by (simp add: dec2 padStart_def)
qed

lemma pad_String_dec:
  assumes "digitsN 1 2 h"
  shows "padStart 2 (CHR ''0'') (String_nat (dec h)) = padStart 2 (CHR ''0'') h"
proof -
  have l: "length h = 1 \<or> length h = 2" and dg: "list_all isDigit h"
    using assms by (auto simp: digitsN_def)
  from l show ?thesis
  proof
    assume "length h = 1"
    then obtain a where h: "h = [a]" by (cases h) auto
    with dg show ?thesis by (simp add: String_nat_dec1)
  next
    assume "length h = 2"
    then obtain a b where h: "h = [a, b]" using len2 by blast
    have "padStart 2 (CHR ''0'') [a, b] = [a, b]" by (simp add: padStart_def)
    with dg h show ?thesis by (simp add: String_nat_dec2)
  qed
qed

lemma pad2_dec: "digitsN 1 2 h \<Longrightarrow> pad2 (dec h) = padStart 2 (CHR ''0'') h"
  by (simp add: pad2_def pad_String_dec)

lemma split_hm:
  assumes "digitsN a b h" "digitsN c d m"
  shows "split_on CHR '':'' (h @ CHR '':'' # m) = [h, m]"
  using split_on_join2 [of "CHR '':''" h m] assms
  by (simp add: digitsN_def isDigit_not_colon)

lemma split_hms:
  assumes "digitsN a b h" "digitsN c d m" "digitsN e f sec"
  shows "split_on CHR '':'' (h @ CHR '':'' # m @ CHR '':'' # sec) = [h, m, sec]"
  using split_on_join3 [of "CHR '':''" h m sec] assms
  by (simp add: digitsN_def isDigit_not_colon)

lemma trim_Nil: "trim [] = []"
  by (simp add: trim_def)

lemma trim_ne: "trim s \<noteq> [] \<Longrightarrow> s \<noteq> []"
  by (auto simp: trim_def)

lemma padStart_full: "length h = 2 \<Longrightarrow> padStart 2 c h = h"
  by (simp add: padStart_def)

lemma time_collapse_hm:
  assumes h: "digitsN 1 2 h" and m: "digitsN 2 2 m"
    and e: "trim s = h @ CHR '':'' # m"
  shows "normalizeTime rt (JStr s) = padStart 2 (CHR ''0'') h @ CHR '':'' # m \<and>
         w_normalizeHHMM s = padStart 2 (CHR ''0'') h @ CHR '':'' # m \<and>
         normalizeHHMM rt (JStr s) = Some (padStart 2 (CHR ''0'') h @ CHR '':'' # m)"
proof -
  have ne: "s \<noteq> []" using e trim_ne [of s] by auto
  have mh: "match_hmm (h @ CHR '':'' # m)" "\<not> match_hmmss (h @ CHR '':'' # m)"
    using h m by (simp_all add: match_hmm_def match_hmmss_def split_hm [OF h m])
  have hh: "match_hhmm (h @ CHR '':'' # m) \<Longrightarrow> length h = 2"
    by (simp add: match_hhmm_def split_hm [OF h m] digitsN_def)
  note sp = split_hm [OF h m]
  have 1: "normalizeTime rt (JStr s) = padStart 2 (CHR ''0'') h @ CHR '':'' # m"
    using ne mh hh by (simp add: normalizeTime_def e Let_def sp padStart_full)
  have 2: "w_normalizeHHMM s = padStart 2 (CHR ''0'') h @ CHR '':'' # m"
    using ne mh by (simp add: w_normalizeHHMM_def e Let_def sp pad_String_dec [OF h])
  have 3: "normalizeHHMM rt (JStr s) = Some (padStart 2 (CHR ''0'') h @ CHR '':'' # m)"
    using ne mh by (simp add: normalizeHHMM_def e Let_def sp pad2_dec [OF h])
  from 1 2 3 show ?thesis by simp
qed

lemma time_collapse_hms:
  assumes h: "digitsN 1 2 h" and m: "digitsN 2 2 m" and sec: "digitsN 2 2 sec"
    and e: "trim s = h @ CHR '':'' # m @ CHR '':'' # sec"
  shows "normalizeTime rt (JStr s) = padStart 2 (CHR ''0'') h @ CHR '':'' # m \<and>
         w_normalizeHHMM s = padStart 2 (CHR ''0'') h @ CHR '':'' # m \<and>
         normalizeHHMM rt (JStr s) = Some (padStart 2 (CHR ''0'') h @ CHR '':'' # m)"
proof -
  have ne: "s \<noteq> []" using e trim_ne [of s] by auto
  have mh: "\<not> match_hmm (h @ CHR '':'' # m @ CHR '':'' # sec)"
    "match_hmmss (h @ CHR '':'' # m @ CHR '':'' # sec)"
    "\<not> match_hhmm (h @ CHR '':'' # m @ CHR '':'' # sec)"
    using h m sec by (simp_all add: match_hmm_def match_hmmss_def match_hhmm_def split_hms [OF h m sec])
  note sp = split_hms [OF h m sec]
  have 1: "normalizeTime rt (JStr s) = padStart 2 (CHR ''0'') h @ CHR '':'' # m"
    using ne mh by (simp add: normalizeTime_def e Let_def sp)
  have 2: "w_normalizeHHMM s = padStart 2 (CHR ''0'') h @ CHR '':'' # m"
    using ne mh by (simp add: w_normalizeHHMM_def e Let_def sp pad_String_dec [OF h])
  have 3: "normalizeHHMM rt (JStr s) = Some (padStart 2 (CHR ''0'') h @ CHR '':'' # m)"
    using ne mh by (simp add: normalizeHHMM_def e Let_def sp pad2_dec [OF h])
  from 1 2 3 show ?thesis by simp
qed

lemma match_hhmm_hmm: "match_hhmm t \<Longrightarrow> match_hmm t"
  by (auto simp: match_hhmm_def match_hmm_def digitsN_def split: list.splits)

lemma passthrough_date:
  "\<not> match_ddmmmyy (trim s) \<Longrightarrow> \<not> match_slash_mon (trim s) \<Longrightarrow> \<not> match_numeric_date (trim s)
     \<Longrightarrow> normalizeDate rt (JStr s) = trim s"
  by (simp add: normalizeDate_def Let_def trim_Nil)

lemma passthrough_time:
  assumes "\<not> match_hmm (trim s)" "\<not> match_hmmss (trim s)"
  shows "normalizeTime rt (JStr s) = trim s \<and> w_normalizeHHMM s = trim s \<and>
           normalizeHHMM rt (JStr s) = (if s = [] then None else Some (trim s))"
proof -
  have "\<not> match_hhmm (trim s)" using assms(1) match_hhmm_hmm by blast
  with assms show ?thesis
    by (simp add: normalizeTime_def w_normalizeHHMM_def normalizeHHMM_def Let_def trim_Nil)
qed

lemma passthrough_ddmmmyy: "\<not> match_ddmmmyy (trim s) \<Longrightarrow> normalizeDDMMMYY s = s"
  by (simp add: normalizeDDMMMYY_def Let_def)


text \<open>
  Claim C9, as the code has it. A string that, once trimmed of surrounding white space,
  matches none of the date patterns is returned trimmed by \<open>normalizeDate\<close>; one that
  matches none of the time patterns is returned trimmed by \<open>normalizeTime\<close> and by both
  \<open>normalizeHHMM\<close> (the meter's gives null for the empty string); \<open>normalizeDDMMMYY\<close>
  returns a string that does not match \<open>DD-MMM-YY\<close> as it is. A time of the form
  \<open>H:MM\<close>, \<open>HH:MM\<close>, \<open>H:MM:SS\<close> or \<open>HH:MM:SS\<close>, possibly surrounded by white
  space, becomes the hour padded to two digits with a zero, a colon and the minutes: the
  seconds are dropped.
\<close>

theorem normalize_passthrough_trimmed:
  "(\<not> match_ddmmmyy (trim s) \<and> \<not> match_slash_mon (trim s) \<and> \<not> match_numeric_date (trim s)
      \<longrightarrow> normalizeDate rt (JStr s) = trim s) \<and>
   (\<not> match_hmm (trim s) \<and> \<not> match_hmmss (trim s)
      \<longrightarrow> normalizeTime rt (JStr s) = trim s \<and> w_normalizeHHMM s = trim s \<and>
          normalizeHHMM rt (JStr s) = (if s = [] then None else Some (trim s))) \<and>
   (\<not> match_ddmmmyy (trim s) \<longrightarrow> normalizeDDMMMYY s = s) \<and>
   (digitsN 1 2 h \<and> digitsN 2 2 m \<and> digitsN 2 2 sec \<and>
    (trim t = h @ '':'' @ m \<or> trim t = h @ '':'' @ m @ '':'' @ sec)
      \<longrightarrow> normalizeTime rt (JStr t) = padStart 2 (CHR ''0'') h @ '':'' @ m \<and>
          w_normalizeHHMM t = padStart 2 (CHR ''0'') h @ '':'' @ m \<and>
          normalizeHHMM rt (JStr t) = Some (padStart 2 (CHR ''0'') h @ '':'' @ m))"
proof (intro conjI impI)
  assume "\<not> match_ddmmmyy (trim s) \<and> \<not> match_slash_mon (trim s) \<and> \<not> match_numeric_date (trim s)"
  then show "normalizeDate rt (JStr s) = trim s" by (simp add: passthrough_date)
next
  assume a: "\<not> match_hmm (trim s) \<and> \<not> match_hmmss (trim s)"
  then show "normalizeTime rt (JStr s) = trim s" using passthrough_time [of s rt] by simp
  from a show "w_normalizeHHMM s = trim s" using passthrough_time [of s rt] by simp
  from a show "normalizeHHMM rt (JStr s) = (if s = [] then None else Some (trim s))"
    using passthrough_time [of s rt] by simp
next
  assume "\<not> match_ddmmmyy (trim s)"
  then show "normalizeDDMMMYY s = s" by (rule passthrough_ddmmmyy)
next
  assume a: "digitsN 1 2 h \<and> digitsN 2 2 m \<and> digitsN 2 2 sec \<and>
    (trim t = h @ '':'' @ m \<or> trim t = h @ '':'' @ m @ '':'' @ sec)"
  then have c: "normalizeTime rt (JStr t) = padStart 2 (CHR ''0'') h @ CHR '':'' # m \<and>
         w_normalizeHHMM t = padStart 2 (CHR ''0'') h @ CHR '':'' # m \<and>
         normalizeHHMM rt (JStr t) = Some (padStart 2 (CHR ''0'') h @ CHR '':'' # m)"
    using time_collapse_hm [of h m t rt] time_collapse_hms [of h m sec t rt] by auto
  from c show "normalizeTime rt (JStr t) = padStart 2 (CHR ''0'') h @ '':'' @ m" by simp
  from c show "w_normalizeHHMM t = padStart 2 (CHR ''0'') h @ '':'' @ m" by simp
  from c show "normalizeHHMM rt (JStr t) = Some (padStart 2 (CHR ''0'') h @ '':'' @ m)" by simp
qed

theorem normalize_passthrough_trimmed_witness:
  "\<not> match_ddmmmyy (trim '' abc '') \<and> \<not> match_slash_mon (trim '' abc '') \<and>
   \<not> match_numeric_date (trim '' abc '') \<and>
   \<not> match_hmm (trim '' abc '') \<and> \<not> match_hmmss (trim '' abc '') \<and>
   digitsN 1 2 ''9'' \<and> digitsN 2 2 ''30'' \<and> digitsN 2 2 ''15'' \<and>
   trim '' 9:30:15'' = ''9'' @ '':'' @ ''30'' @ '':'' @ ''15'' \<and>
   normalizeDate sample_runtime (JStr '' abc '') = ''abc'' \<and>
   normalizeTime sample_runtime (JStr '' abc '') = ''abc'' \<and>
   w_normalizeHHMM '' abc '' = ''abc'' \<and>
   normalizeHHMM sample_runtime (JStr '' abc '') = Some ''abc'' \<and>
   normalizeDDMMMYY '' abc '' = '' abc '' \<and>
   normalizeTime sample_runtime (JStr '' 9:30:15'') = ''09:30'' \<and>
   w_normalizeHHMM '' 9:30:15'' = ''09:30'' \<and>
   normalizeHHMM sample_runtime (JStr '' 9:30:15'') = Some ''09:30''"
proof -
  have h: "\<not> match_ddmmmyy (trim '' abc '')" "\<not> match_slash_mon (trim '' abc '')"
    "\<not> match_numeric_date (trim '' abc '')"
    "\<not> match_hmm (trim '' abc '')" "\<not> match_hmmss (trim '' abc '')"
    "digitsN 1 2 ''9''" "digitsN 2 2 ''30''" "digitsN 2 2 ''15''"
    "trim '' 9:30:15'' = ''9'' @ '':'' @ ''30'' @ '':'' @ ''15''"
    "trim '' abc '' = ''abc''" "padStart 2 (CHR ''0'') ''9'' = ''09''"
    by code_simp+
  from normalize_passthrough_trimmed
    [of "'' abc ''" sample_runtime "''9''" "''30''" "''15''" "'' 9:30:15''"] h
  show ?thesis by simp
qed

text \<open>
  The claim as stated (the input comes back unchanged) fails on a string with surrounding
  white space: \<open>normalizeDate\<close> and \<open>normalizeTime\<close> return it trimmed, although it
  matches none of the patterns, trimmed or not. The meter's \<open>normalizeHHMM\<close> turns the
  empty string into null.
\<close>

theorem normalize_unchanged_counterexample:
  "\<not> match_hmm '' abc '' \<and> \<not> match_hmmss '' abc '' \<and> \<not> match_hhmm '' abc '' \<and>
   \<not> match_ddmmmyy '' abc '' \<and> \<not> match_slash_mon '' abc '' \<and> \<not> match_numeric_date '' abc '' \<and>
   normalizeTime sample_runtime (JStr '' abc '') \<noteq> '' abc '' \<and>
   normalizeDate sample_runtime (JStr '' abc '') \<noteq> '' abc '' \<and>
   normalizeHHMM sample_runtime (JStr '''') \<noteq> Some ''''"
  by code_simp

section \<open>The validation loop, row by row\<close>








section \<open>Times of day\<close>






lemma dec2_le: "length h = 2 \<Longrightarrow> dec h \<le> 99"
proof -
  assume "length h = 2"
  then obtain a b where h: "h = [a, b]" using len2 by blast
  show ?thesis using digitVal_le [of a] digitVal_le [of b] by (simp add: h dec2)
qed


lemma js_rem_nonneg: "0 \<le> a \<Longrightarrow> js_rem a b = a mod b"
  by (simp add: js_rem_def)




section \<open>Weather points and the enriched row\<close>




lemma find_cases:
  "(case List.find P xs of Some p \<Rightarrow> f p | None \<Rightarrow> d) = r \<Longrightarrow>
     r = d \<or> (\<exists>p \<in> set xs. r = f p)"
  by (cases "List.find P xs") (auto simp: find_Some_iff)















section \<open>Plant start and stop times are the earliest and the latest qualifying samples\<close>










section \<open>The total operating time\<close>







section \<open>Plant start and stop follow the rule of the specification\<close>





section \<open>The defect of a row with neither times nor readings\<close>

lemma map_of_zip_upt:
  "map_of (zip [a ..< a + length es] es) n =
     (if a \<le> n \<and> n < a + length es then Some (es ! (n - a)) else None)"
proof (induction es arbitrary: a)
  case Nil
  then show ?case by simp
next
  case (Cons e es)
  have u: "[a ..< a + length (e # es)] = a # [Suc a ..< Suc a + length es]"
    using upt_conv_Cons [of a "a + length (e # es)"] by (simp del: upt_Suc)
  show ?case
  proof (cases "n = a")
    case True
    then show ?thesis unfolding u by simp
  next
    case False
    then have "map_of (zip [a ..< a + length (e # es)] (e # es)) n =
        map_of (zip [Suc a ..< Suc a + length es] es) n"
      unfolding u by simp
    also have "\<dots> = (if Suc a \<le> n \<and> n < Suc a + length es then Some (es ! (n - Suc a)) else None)"
      by (rule Cons.IH)
    also have "\<dots> = (if a \<le> n \<and> n < a + length (e # es) then Some ((e # es) ! (n - a)) else None)"
    proof (cases "Suc a \<le> n \<and> n < Suc a + length es")
      case True
      then have "n - a = Suc (n - Suc a)" by arith
      then have "(e # es) ! (n - a) = es ! (n - Suc a)" by simp
      with True show ?thesis by simp
    next
      case False
      with \<open>n \<noteq> a\<close> show ?thesis by auto
    qed
    finally show ?thesis .
  qed
qed

lemma map_of_filter_distinct:
  assumes "distinct (map fst xs)"
  shows "map_of (filter (\<lambda>re. P (snd re)) xs) n =
        (case map_of xs n of Some e \<Rightarrow> if P e then Some e else None | None \<Rightarrow> None)"
  using assms
proof (induction xs)
  case Nil
  then show ?case by simp
next
  case (Cons x xs)
  then have ih: "map_of (filter (\<lambda>re. P (snd re)) xs) n =
        (case map_of xs n of Some e \<Rightarrow> if P e then Some e else None | None \<Rightarrow> None)" by simp
  show ?case
  proof (cases "fst x = n")
    case True
    with Cons.prems have "n \<notin> fst ` set xs" by auto
    then have "map_of xs n = None" by (simp add: map_of_eq_None_iff)
    with True ih show ?thesis by (cases x) auto
  next
    case False
    with ih show ?thesis by (cases x) auto
  qed
qed

lemma map_of_collectErrors:
  "map_of (collectErrors es) n =
     (if 2 \<le> n \<and> n < 2 + length es \<and> es ! (n - 2) \<noteq> [] then Some (es ! (n - 2)) else None)"
proof -
  have d: "distinct (map fst (zip [2 ..< 2 + length es] es))" by simp
  show ?thesis unfolding collectErrors_def
    using map_of_filter_distinct [OF d, of "\<lambda>e. e \<noteq> []" n] map_of_zip_upt [of 2 es n]
    by simp
qed












section \<open>The GSS totals\<close>






section \<open>Duplicate date and time in a weather batch\<close>

lemma w_validate_loop_length: "length (w_validate_loop rt seen rows) = length rows"
  by (induction rows arbitrary: seen) auto

lemma w_validate_loop_nth:
  "i < length rows \<Longrightarrow>
   w_validate_loop rt seen rows ! i =
     (w_outRow rt (rows ! i), w_rowErrors rt (w_seenBefore rt seen (take i rows)) (rows ! i))"
proof (induction rows arbitrary: seen i)
  case Nil
  then show ?case by simp
next
  case (Cons r rows)
  show ?case
  proof (cases i)
    case 0
    then show ?thesis by (simp add: w_seenBefore_def)
  next
    case (Suc j)
    with Cons.prems have "j < length rows" by simp
    from Cons.IH [OF this] Suc show ?thesis by (simp add: w_seenBefore_def)
  qed
qed

lemma w_errors_of_row:
  assumes "i < length rows"
  shows "errors_of (w_validateRows rt rows) (i + 2) =
           w_rowErrors rt (w_seenBefore rt [] (take i rows)) (rows ! i)"
  using assms
  by (simp add: errors_of_def w_validateRows_def Let_def map_of_collectErrors
      w_validate_loop_length w_validate_loop_nth)

lemma set_w_seenBefore:
  "set (w_seenBefore rt seen rs) =
     set seen \<union> {dateTimeKey (w_date rt r) (w_time rt r) | r. r \<in> set rs \<and> checked (w_date rt r) (w_time rt r)}"
proof (induction rs arbitrary: seen)
  case Nil
  then show ?case by (simp add: w_seenBefore_def)
next
  case (Cons r rs)
  have "w_seenBefore rt seen (r # rs) = w_seenBefore rt (w_seenAfter seen (w_date rt r) (w_time rt r)) rs"
    by (simp add: w_seenBefore_def)
  then show ?case using Cons.IH [of "w_seenAfter seen (w_date rt r) (w_time rt r)"]
    by (auto simp: w_seenAfter_def)
qed

lemma trim_decomp: "\<exists>a b. s = a @ trim s @ b \<and> list_all isSpace a \<and> list_all isSpace b"
proof -
  let ?u = "dropWhile isSpace s"
  have 1: "s = takeWhile isSpace s @ ?u" by simp
  have "?u = rev (takeWhile isSpace (rev ?u) @ dropWhile isSpace (rev ?u))"
    by (simp only: takeWhile_dropWhile_id rev_rev_ident)
  also have "\<dots> = rev (dropWhile isSpace (rev ?u)) @ rev (takeWhile isSpace (rev ?u))"
    by (rule rev_append)
  finally have 2: "?u = trim s @ rev (takeWhile isSpace (rev ?u))" by (simp only: trim_def)
  have 3: "list_all isSpace (takeWhile isSpace s)" "list_all isSpace (rev (takeWhile isSpace (rev ?u)))"
    by (auto simp: list_all_iff dest: set_takeWhileD)
  from 1 2 have "s = takeWhile isSpace s @ trim s @ rev (takeWhile isSpace (rev ?u))" by metis
  with 3 show ?thesis by blast
qed

lemma not_space_in_trim: "\<not> isSpace c \<Longrightarrow> c \<in> set s \<longleftrightarrow> c \<in> set (trim s)"
proof -
  assume c: "\<not> isSpace c"
  obtain a b where s: "s = a @ trim s @ b" and ab: "list_all isSpace a" "list_all isSpace b"
    using trim_decomp by blast
  have "c \<notin> set a" "c \<notin> set b" using ab c by (auto simp: list_all_iff)
  then show ?thesis by (subst s) auto
qed

lemma underscore_facts: "\<not> isSpace (CHR ''_'')" "\<not> isDigit (CHR ''_'')" "\<not> isAlpha (CHR ''_'')"
  "CHR ''_'' \<noteq> CHR ''-''"
  by (simp_all add: isSpace_def isDigit_def isAlpha_def isUpper_def isLower_def)

lemma valid_date_no_underscore:
  assumes "w_isValidDDMMMYY d"
  shows "CHR ''_'' \<notin> set d"
proof -
  from assms have m: "match_ddmmmyy (trim d)"
    by (auto simp: w_isValidDDMMMYY_def Let_def split: if_splits)
  then obtain p q r where sp: "split_on CHR ''-'' (trim d) = [p, q, r]"
    and sh: "digitsN 2 2 p" "alphaN 3 q" "digitsN 2 2 r"
    by (auto simp: match_ddmmmyy_def split: list.splits)
  have "trim d = p @ CHR ''-'' # q @ CHR ''-'' # r" by (rule split_on_3 [OF sp])
  moreover have "CHR ''_'' \<notin> set p" "CHR ''_'' \<notin> set q" "CHR ''_'' \<notin> set r"
    using sh underscore_facts by (auto simp: digitsN_def alphaN_def list_all_iff)
  ultimately have "CHR ''_'' \<notin> set (trim d)" using underscore_facts(4) by simp
  then show ?thesis using not_space_in_trim [OF underscore_facts(1)] by blast
qed

lemma append_sep_inj:
  assumes "c \<notin> set a" "c \<notin> set a'" "a @ c # b = a' @ c # b'"
  shows "a = a' \<and> b = b'"
proof -
  have "takeWhile (\<lambda>x. x \<noteq> c) (a @ c # b) = a"
    using assms(1) by (auto simp: takeWhile_tail takeWhile_eq_all_conv)
  moreover have "takeWhile (\<lambda>x. x \<noteq> c) (a' @ c # b') = a'"
    using assms(2) by (auto simp: takeWhile_tail takeWhile_eq_all_conv)
  ultimately have "a = a'" using assms(3) by simp
  with assms(3) show ?thesis by simp
qed

lemma dateTimeKey_inj:
  assumes "checked d t" "checked d' t'" "dateTimeKey d t = dateTimeKey d' t'"
  shows "d = d' \<and> t = t'"
  using assms valid_date_no_underscore [of d] valid_date_no_underscore [of d']
    append_sep_inj [of "CHR ''_''" d d' t t']
  by (simp add: checked_def dateTimeKey_def)

lemma digitChar_isDigit: "n < 10 \<Longrightarrow> isDigit (digitChar n)"
  unfolding isDigit_def digitChar_def by (rule nth_mem) simp

lemma last_String_nat: "isDigit (last (String_nat n))"
  by (subst String_nat.simps) (simp add: digitChar_isDigit)

lemma duplicate_last: "last duplicate = CHR ''n''" "\<not> isDigit (CHR ''n'')"
  unfolding duplicate_def isDigit_def by simp_all

lemma duplicate_not_checkRange: "duplicate \<notin> set (checkRange rt v mn mx field az)"
proof -
  have 1: "field @ '' must be a number'' \<noteq> duplicate"
  proof
    assume "field @ '' must be a number'' = duplicate"
    then have "last (field @ '' must be a number'') = CHR ''n''" using duplicate_last by simp
    then show False by simp
  qed
  have 2: "field @ '' cannot be 0'' \<noteq> duplicate"
  proof
    assume "field @ '' cannot be 0'' = duplicate"
    then have "last (field @ '' cannot be 0'') = CHR ''n''" using duplicate_last by simp
    then show False by simp
  qed
  have 3: "field @ '' must be between '' @ String_nat mn @ '' and '' @ String_nat mx \<noteq> duplicate"
  proof
    assume a: "field @ '' must be between '' @ String_nat mn @ '' and '' @ String_nat mx = duplicate"
    have "String_nat mx \<noteq> []" by (subst String_nat.simps) simp
    then have "last (field @ '' must be between '' @ String_nat mn @ '' and '' @ String_nat mx)
        = last (String_nat mx)" by simp
    with a have "last (String_nat mx) = CHR ''n''" using duplicate_last by simp
    with last_String_nat [of mx] duplicate_last(2) show False by simp
  qed
  from 1 2 3 show ?thesis by (simp add: checkRange_def Let_def)
qed

lemma duplicate_not_moduleTemp: "duplicate \<notin> set (moduleTempErrors rt v)"
  by (simp add: moduleTempErrors_def Let_def duplicate_def)

lemma duplicate_not_date_time:
  "duplicate \<notin> set (w_dateErrors d)" "duplicate \<notin> set (w_timeErrors t)"
  by (simp_all add: w_dateErrors_def w_timeErrors_def duplicate_def)

lemma duplicate_in_rowErrors:
  "duplicate \<in> set (w_rowErrors rt seen row) \<longleftrightarrow>
     checked (w_date rt row) (w_time rt row) \<and> dateTimeKey (w_date rt row) (w_time rt row) \<in> set seen"
  by (simp add: w_rowErrors_def w_rangeErrors_def duplicate_not_checkRange duplicate_not_moduleTemp
      duplicate_not_date_time w_duplicateErrors_def)

text \<open>
  Claim C3, as the code has it. In a batch of weather rows, the defect
  \<open>Duplicate Date & Time combination\<close> is reported for a row exactly when its normalized
  date is a valid \<open>DD-MMM-YY\<close>, its normalized time a valid \<open>HH:MM\<close>, and an earlier row of
  the batch has the same normalized date and time. So every occurrence of a valid pair
  after its first is flagged, and the first is not.
\<close>

theorem duplicate_flag_iff:
  assumes i: "i < length rows"
  shows "duplicate \<in> set (errors_of (w_validateRows rt rows) (i + 2)) \<longleftrightarrow>
     checked (w_date rt (rows ! i)) (w_time rt (rows ! i)) \<and>
     (\<exists>j<i. w_date rt (rows ! j) = w_date rt (rows ! i) \<and> w_time rt (rows ! j) = w_time rt (rows ! i))"
proof -
  let ?d = "w_date rt (rows ! i)" and ?t = "w_time rt (rows ! i)"
  have len: "length (take i rows) = i" using i by simp
  have mem: "\<And>r. r \<in> set (take i rows) \<longleftrightarrow> (\<exists>j<i. r = rows ! j)"
    using len by (auto simp: in_set_conv_nth)
  have "duplicate \<in> set (errors_of (w_validateRows rt rows) (i + 2)) \<longleftrightarrow>
      checked ?d ?t \<and> dateTimeKey ?d ?t \<in> set (w_seenBefore rt [] (take i rows))"
    unfolding w_errors_of_row [OF i] by (rule duplicate_in_rowErrors)
  also have "\<dots> \<longleftrightarrow> checked ?d ?t \<and>
      (\<exists>r \<in> set (take i rows). checked (w_date rt r) (w_time rt r) \<and>
          dateTimeKey (w_date rt r) (w_time rt r) = dateTimeKey ?d ?t)"
    unfolding set_w_seenBefore by (simp, metis)
  also have "\<dots> \<longleftrightarrow> checked ?d ?t \<and>
      (\<exists>r \<in> set (take i rows). w_date rt r = ?d \<and> w_time rt r = ?t)"
    using dateTimeKey_inj by (metis (no_types, lifting))
  also have "\<dots> \<longleftrightarrow> checked ?d ?t \<and>
      (\<exists>j<i. w_date rt (rows ! j) = ?d \<and> w_time rt (rows ! j) = ?t)"
    using mem by auto
  finally show ?thesis .
qed

theorem duplicate_flag_iff_witness:
  "(1 :: nat) < length sample_weather_rows \<and> (0 :: nat) < length sample_weather_rows \<and>
   w_date sample_runtime (sample_weather_rows ! 0) = ''01-Dec-24'' \<and>
   w_time sample_runtime (sample_weather_rows ! 0) = ''09:30'' \<and>
   w_date sample_runtime (sample_weather_rows ! 1) = ''01-Dec-24'' \<and>
   w_time sample_runtime (sample_weather_rows ! 1) = ''09:30'' \<and>
   checked ''01-Dec-24'' ''09:30'' \<and>
   duplicate \<in> set (errors_of (w_validateRows sample_runtime sample_weather_rows) (1 + 2)) \<and>
   duplicate \<notin> set (errors_of (w_validateRows sample_runtime sample_weather_rows) (0 + 2))"
proof -
  have i: "(1 :: nat) < length sample_weather_rows" "(0 :: nat) < length sample_weather_rows"
    by (simp_all add: sample_weather_rows_def)
  have e: "w_date sample_runtime (sample_weather_rows ! 0) = ''01-Dec-24''"
    "w_time sample_runtime (sample_weather_rows ! 0) = ''09:30''"
    "w_date sample_runtime (sample_weather_rows ! 1) = ''01-Dec-24''"
    "w_time sample_runtime (sample_weather_rows ! 1) = ''09:30''"
    "checked ''01-Dec-24'' ''09:30''"
    by code_simp+
  have "\<exists>j<1. w_date sample_runtime (sample_weather_rows ! j) = ''01-Dec-24'' \<and>
      w_time sample_runtime (sample_weather_rows ! j) = ''09:30''"
    using e by auto
  with duplicate_flag_iff [OF i(1), of sample_runtime] e
  have a: "duplicate \<in> set (errors_of (w_validateRows sample_runtime sample_weather_rows) (1 + 2))"
    by simp
  from duplicate_flag_iff [OF i(2), of sample_runtime]
  have b: "duplicate \<notin> set (errors_of (w_validateRows sample_runtime sample_weather_rows) (0 + 2))"
    by simp
  from i e a b show ?thesis by (intro conjI)
qed

text \<open>
  The claim as stated fails for a pair that is not valid: two rows with the date
  \<open>1-Dec-24\<close> (a one-digit day) and the time \<open>09:30\<close> are the same pair twice, and the second
  is reported with the date format defect only.
\<close>

theorem duplicate_unchecked_counterexample:
  "sample_invalid_rows ! 0 = sample_invalid_rows ! 1 \<and>
   w_date sample_runtime (sample_invalid_rows ! 1) = ''1-Dec-24'' \<and>
   w_time sample_runtime (sample_invalid_rows ! 1) = ''09:30'' \<and>
   errors_of (w_validateRows sample_runtime sample_invalid_rows) 3 =
     [''Invalid Date format (expected DD-MMM-YY, e.g., 01-Dec-24)''] \<and>
   duplicate \<notin> set (errors_of (w_validateRows sample_runtime sample_invalid_rows) 3)"
  by code_simp

section \<open>Submission of weather and meter rows\<close>

lemma ws_fold:
  "foldl (ws_step rt exists) (docs, n) rows =
     (docs @ map (weatherDoc rt) (filter (ws_kept exists) rows),
      n + length (filter (\<lambda>r. \<not> ws_kept exists r) rows))"
  by (induction rows arbitrary: docs n) (auto simp: ws_step_def ws_kept_def)

lemma docsToInsert_eq:
  "docsToInsert rt exists rows = map (weatherDoc rt) (filter (ws_kept exists) rows)"
  by (simp add: docsToInsert_def ws_fold)

lemma skipped_rows_eq:
  "skipped_rows rt exists rows = length (filter (\<lambda>r. \<not> ws_kept exists r) rows)"
  by (simp add: skipped_rows_def ws_fold)

lemma w_submitRows_cases:
  "w_submitRows rt exists insertMany rows =
     (if rows = [] then Inr \<lparr>inserted = 0, skipped = 0, message = ''No data provided''\<rparr>
      else case (if docsToInsert rt exists rows \<noteq> [] then insertMany (docsToInsert rt exists rows)
                 else None) of
             Some e \<Rightarrow> Inl e
           | None \<Rightarrow>
               Inr \<lparr>inserted = length (docsToInsert rt exists rows),
                    skipped = skipped_rows rt exists rows,
                    message = ''Weather data submission completed. '' @
                      String_nat (length (docsToInsert rt exists rows)) @ '' inserted, '' @
                      String_nat (skipped_rows rt exists rows) @ '' skipped.''\<rparr>)"
  by (auto simp: w_submitRows_def docsToInsert_def skipped_rows_def Let_def split: option.splits)

lemma toNumber_no_number: "no_number rt v \<Longrightarrow> toNumber rt v = Fin 0"
  by (cases v) (auto simp: no_number_def toNumber_def Number_str_def Let_def)

lemma toNumber_number: "\<not> no_number rt v \<Longrightarrow> toNumber rt v = Number_js rt v"
  by (cases v) (auto simp: no_number_def toNumber_def Let_def trim_Nil)

lemma weatherDoc_sensor:
  "(k, f) \<in> set sensor_fields \<Longrightarrow> get (weatherDoc rt row) f = JNum (toNumber rt (get row k))"
  by (simp add: sensor_fields_def; elim disjE; simp add: weatherDoc_def get_def)

lemma meterOps_bad:
  "list_ex (\<lambda>r. ms_date rt r = []) rows \<Longrightarrow>
     meterOps rt Weather_find rows = Inl (BadRequestException ''Each row must contain Date'')"
  by (induction rows) auto

lemma meterOps_good:
  "\<not> list_ex (\<lambda>r. ms_date rt r = []) rows \<Longrightarrow>
     meterOps rt Weather_find rows = Inr (map (meterOp rt Weather_find) rows)"
  by (induction rows) auto

lemma meterOp_eq:
  "meterOp rt Weather_find r =
     UpdateOne [(''date'', JStr (ms_date rt r)), (''time'', JStr (ms_time rt r))]
       (meterDoc rt Weather_find r) True"
  by (simp add: meterOp_def meterDoc_def Let_def get_def)

lemma kept_partition:
  "length (filter (ws_kept exists) rows) + length (filter (\<lambda>r. \<not> ws_kept exists r) rows) = length rows"
  by (induction rows) auto

subsection \<open>Sensor cells that hold no number\<close>

text \<open>
  Claim C10. The documents that the weather submission hands to the store are those of the
  rows it keeps, in order, and in the document of a row each of the nine sensor fields is a
  number: 0 when the row's cell is null, undefined, blank or not parseable as a number
  (whatever the runtime's \<open>Number\<close> is), and the cell's number otherwise. A cell that holds
  no number therefore never removes the field and never removes the row, since whether a
  row is kept depends on its date and time only.
\<close>

theorem blank_sensor_fields_stored_as_zero:
  "docsToInsert rt exists rows = map (weatherDoc rt) (filter (ws_kept exists) rows) \<and>
   (\<forall>row. \<forall>(k, f) \<in> set sensor_fields.
      get (weatherDoc rt row) f =
        JNum (if no_number rt (get row k) then Fin 0 else Number_js rt (get row k)))"
  using toNumber_no_number toNumber_number
  by (auto simp: docsToInsert_eq weatherDoc_sensor)

theorem blank_sensor_fields_stored_as_zero_witness:
  "ws_kept sample_exists (sample_submit_rows ! 0) \<and>
   docsToInsert sample_runtime sample_exists sample_submit_rows =
     [weatherDoc sample_runtime (sample_submit_rows ! 0)] \<and>
   get (sample_submit_rows ! 0) ''POA'' = JStr [] \<and>
   get (weatherDoc sample_runtime (sample_submit_rows ! 0)) ''poa'' = JNum (Fin 0) \<and>
   get (sample_submit_rows ! 0) ''GHI'' = JNull \<and>
   get (weatherDoc sample_runtime (sample_submit_rows ! 0)) ''ghi'' = JNum (Fin 0) \<and>
   get (sample_submit_rows ! 0) ''AlbedoUp'' = JStr ''n/a'' \<and>
   get (weatherDoc sample_runtime (sample_submit_rows ! 0)) ''albedoUp'' = JNum (Fin 0) \<and>
   get (sample_submit_rows ! 0) ''Humidity'' = JUndefined \<and>
   get (weatherDoc sample_runtime (sample_submit_rows ! 0)) ''humidity'' = JNum (Fin 0) \<and>
   get (sample_submit_rows ! 0) ''ModuleTemp'' = JStr ''25'' \<and>
   get (weatherDoc sample_runtime (sample_submit_rows ! 0)) ''moduleTemp'' = JNum (Fin 25)"
proof -
  let ?row = "sample_submit_rows ! 0"
  note t = blank_sensor_fields_stored_as_zero [of sample_runtime sample_exists sample_submit_rows]
  note d = conjunct1 [OF t]
  note f = spec [OF conjunct2 [OF t], of ?row]
  have m: "(''POA'', ''poa'') \<in> set sensor_fields" "(''GHI'', ''ghi'') \<in> set sensor_fields"
    "(''AlbedoUp'', ''albedoUp'') \<in> set sensor_fields"
    "(''Humidity'', ''humidity'') \<in> set sensor_fields"
    "(''ModuleTemp'', ''moduleTemp'') \<in> set sensor_fields"
    by (simp_all add: sensor_fields_def)
  have k: "ws_kept sample_exists ?row" by code_simp
  have fl: "filter (ws_kept sample_exists) sample_submit_rows = [?row]" by code_simp
  have c: "get ?row ''POA'' = JStr []" "get ?row ''GHI'' = JNull"
    "get ?row ''AlbedoUp'' = JStr ''n/a''" "get ?row ''Humidity'' = JUndefined"
    "get ?row ''ModuleTemp'' = JStr ''25''"
    by code_simp+
  have n: "no_number sample_runtime (JStr [])" "no_number sample_runtime JNull"
    "no_number sample_runtime (JStr ''n/a'')" "no_number sample_runtime JUndefined"
    "\<not> no_number sample_runtime (JStr ''25'')" "Number_js sample_runtime (JStr ''25'') = Fin 25"
    by code_simp+
  have d': "docsToInsert sample_runtime sample_exists sample_submit_rows =
      [weatherDoc sample_runtime ?row]"
    using d unfolding fl by simp
  have p1: "get (weatherDoc sample_runtime ?row) ''poa'' = JNum (Fin 0)"
    using bspec [OF f m(1)] c n by simp
  have p2: "get (weatherDoc sample_runtime ?row) ''ghi'' = JNum (Fin 0)"
    using bspec [OF f m(2)] c n by simp
  have p3: "get (weatherDoc sample_runtime ?row) ''albedoUp'' = JNum (Fin 0)"
    using bspec [OF f m(3)] c n by simp
  have p4: "get (weatherDoc sample_runtime ?row) ''humidity'' = JNum (Fin 0)"
    using bspec [OF f m(4)] c n by simp
  have p5: "get (weatherDoc sample_runtime ?row) ''moduleTemp'' = JNum (Fin 25)"
    using bspec [OF f m(5)] c n by simp
  from k d' c(1) p1 c(2) p2 c(3) p3 c(4) p4 c(5) p5 show ?thesis by (intro conjI)
qed

subsection \<open>Rows without a date\<close>

text \<open>
  Claim C6, amended. The two submission services treat a row without a date differently.

  The meter service rejects the whole batch with \<open>Each row must contain Date\<close>, whatever the
  store would answer, as soon as one row has no date (neither \<open>Date\<close> nor \<open>date\<close>, or a blank
  one). When every row has a date it hands the store one operation per row, in row order,
  each an upsert whose filter is the row's date and time, and it returns the store's four
  counts, 0 for a count that the store leaves out, or the store's error.

  The weather service hands the store the documents of the rows it keeps: a row is skipped
  when it has no date, no time, or a date and time that the store already has. It never
  fails because of such a row: when the store accepts the documents, it returns the number
  of documents as \<open>inserted\<close> and the number of other rows as \<open>skipped\<close>, which add up to the
  number of rows; it fails only with an error of the store's \<open>insertMany\<close>.
\<close>

theorem submission_of_rows_lacking_a_date:
  "(if list_ex (\<lambda>r. ms_date rt r = []) rows
    then submitRows rt Weather_find bulkWrite rows =
           Inl (BadRequestException ''Each row must contain Date'')
    else meterOps rt Weather_find rows = Inr (map (meterOp rt Weather_find) rows) \<and>
         submitRows rt Weather_find bulkWrite rows =
           (case bulkWrite (map (meterOp rt Weather_find) rows) of
              Inl e \<Rightarrow> Inl e
            | Inr result \<Rightarrow>
                Inr \<lparr>insertedCount = or_0 (r_insertedCount result),
                     matchedCount = or_0 (r_matchedCount result),
                     modifiedCount = or_0 (r_modifiedCount result),
                     upsertedCount = or_0 (r_upsertedCount result)\<rparr>)) \<and>
   (\<forall>r. meterOp rt Weather_find r =
      UpdateOne [(''date'', JStr (ms_date rt r)), (''time'', JStr (ms_time rt r))]
        (meterDoc rt Weather_find r) True) \<and>
   docsToInsert rt exists rows = map (weatherDoc rt) (filter (ws_kept exists) rows) \<and>
   skipped_rows rt exists rows = length (filter (\<lambda>r. \<not> ws_kept exists r) rows) \<and>
   (\<forall>r \<in> set rows. \<not> truthy (ws_date r) \<longrightarrow> \<not> ws_kept exists r) \<and>
   (case w_submitRows rt exists insertMany rows of
      Inr res \<Rightarrow>
        inserted res = length (docsToInsert rt exists rows) \<and>
        skipped res = skipped_rows rt exists rows \<and>
        inserted res + skipped res = length rows
    | Inl e \<Rightarrow>
        docsToInsert rt exists rows \<noteq> [] \<and>
        insertMany (docsToInsert rt exists rows) = Some e)"
proof -
  have a: "list_ex (\<lambda>r. ms_date rt r = []) rows \<Longrightarrow>
      submitRows rt Weather_find bulkWrite rows =
        Inl (BadRequestException ''Each row must contain Date'')"
    by (simp add: submitRows_def meterOps_bad)
  have b: "\<not> list_ex (\<lambda>r. ms_date rt r = []) rows \<Longrightarrow>
      submitRows rt Weather_find bulkWrite rows =
           (case bulkWrite (map (meterOp rt Weather_find) rows) of
              Inl e \<Rightarrow> Inl e
            | Inr result \<Rightarrow>
                Inr \<lparr>insertedCount = or_0 (r_insertedCount result),
                     matchedCount = or_0 (r_matchedCount result),
                     modifiedCount = or_0 (r_modifiedCount result),
                     upsertedCount = or_0 (r_upsertedCount result)\<rparr>)"
    by (simp add: submitRows_def meterOps_good)
  have c: "\<forall>r \<in> set rows. \<not> truthy (ws_date r) \<longrightarrow> \<not> ws_kept exists r"
    by (simp add: ws_kept_def)
  have d: "case w_submitRows rt exists insertMany rows of
      Inr res \<Rightarrow>
        inserted res = length (docsToInsert rt exists rows) \<and>
        skipped res = skipped_rows rt exists rows \<and>
        inserted res + skipped res = length rows
    | Inl e \<Rightarrow>
        docsToInsert rt exists rows \<noteq> [] \<and>
        insertMany (docsToInsert rt exists rows) = Some e"
    using kept_partition [of exists rows]
    by (auto simp: w_submitRows_cases docsToInsert_eq skipped_rows_eq split: option.splits)
  have m: "if list_ex (\<lambda>r. ms_date rt r = []) rows
    then submitRows rt Weather_find bulkWrite rows =
           Inl (BadRequestException ''Each row must contain Date'')
    else meterOps rt Weather_find rows = Inr (map (meterOp rt Weather_find) rows) \<and>
         submitRows rt Weather_find bulkWrite rows =
           (case bulkWrite (map (meterOp rt Weather_find) rows) of
              Inl e \<Rightarrow> Inl e
            | Inr result \<Rightarrow>
                Inr \<lparr>insertedCount = or_0 (r_insertedCount result),
                     matchedCount = or_0 (r_matchedCount result),
                     modifiedCount = or_0 (r_modifiedCount result),
                     upsertedCount = or_0 (r_upsertedCount result)\<rparr>)"
  proof (cases "list_ex (\<lambda>r. ms_date rt r = []) rows")
    case True
    show ?thesis by (subst if_P [OF True]) (rule a [OF True])
  next
    case False
    show ?thesis
      by (subst if_not_P [OF False]) (rule conjI [OF meterOps_good [OF False] b [OF False]])
  qed
  have o: "\<forall>r. meterOp rt Weather_find r =
      UpdateOne [(''date'', JStr (ms_date rt r)), (''time'', JStr (ms_time rt r))]
        (meterDoc rt Weather_find r) True"
    by (simp add: meterOp_eq)
  from m o docsToInsert_eq [of rt exists rows] skipped_rows_eq [of rt exists rows] c d
  show ?thesis by (intro conjI)
qed

theorem submission_of_rows_lacking_a_date_witness:
  "list_ex (\<lambda>r. ms_date sample_runtime r = []) sample_meter_rows \<and>
   submitRows sample_runtime (sample_find sample_weather) sample_bulkWrite sample_meter_rows =
     Inl (BadRequestException ''Each row must contain Date'') \<and>
   \<not> list_ex (\<lambda>r. ms_date sample_runtime r = []) (take 1 sample_meter_rows) \<and>
   submitRows sample_runtime (sample_find sample_weather) sample_bulkWrite
       (take 1 sample_meter_rows) =
     Inr \<lparr>insertedCount = 0, matchedCount = 0, modifiedCount = 0, upsertedCount = 1\<rparr> \<and>
   op_filter (meterOp sample_runtime (sample_find sample_weather) (sample_meter_rows ! 0)) =
     [(''date'', JStr ''22-06-2025''), (''time'', JStr ''00:00'')] \<and>
   sample_submit_rows ! 1 \<in> set sample_submit_rows \<and>
   \<not> truthy (ws_date (sample_submit_rows ! 1)) \<and>
   \<not> ws_kept sample_exists (sample_submit_rows ! 1) \<and>
   w_submitRows sample_runtime sample_exists sample_insertMany sample_submit_rows =
     Inr \<lparr>inserted = 1, skipped = 2,
          message = ''Weather data submission completed. 1 inserted, 2 skipped.''\<rparr> \<and>
   length (docsToInsert sample_runtime sample_exists sample_submit_rows) = 1 \<and>
   skipped_rows sample_runtime sample_exists sample_submit_rows = 2"
proof -
  note t1 = submission_of_rows_lacking_a_date [of sample_runtime sample_meter_rows
      "sample_find sample_weather" sample_bulkWrite sample_exists sample_insertMany]
  note t2 = submission_of_rows_lacking_a_date [of sample_runtime "take 1 sample_meter_rows"
      "sample_find sample_weather" sample_bulkWrite sample_exists sample_insertMany]
  note t3 = submission_of_rows_lacking_a_date [of sample_runtime sample_submit_rows
      "sample_find sample_weather" sample_bulkWrite sample_exists sample_insertMany]
  have h1: "list_ex (\<lambda>r. ms_date sample_runtime r = []) sample_meter_rows" by code_simp
  have h2: "\<not> list_ex (\<lambda>r. ms_date sample_runtime r = []) (take 1 sample_meter_rows)"
    by code_simp
  have r1: "submitRows sample_runtime (sample_find sample_weather) sample_bulkWrite
      sample_meter_rows = Inl (BadRequestException ''Each row must contain Date'')"
    using conjunct1 [OF t1] h1 by simp
  have r2: "submitRows sample_runtime (sample_find sample_weather) sample_bulkWrite
      (take 1 sample_meter_rows) =
        Inr \<lparr>insertedCount = 0, matchedCount = 0, modifiedCount = 0, upsertedCount = 1\<rparr>"
    using conjunct1 [OF t2] h2
    by (simp add: sample_bulkWrite_def or_0_def sample_meter_rows_def)
  have dt: "ms_date sample_runtime (sample_meter_rows ! 0) = ''22-06-2025''"
    "ms_time sample_runtime (sample_meter_rows ! 0) = ''00:00''"
    by code_simp+
  have r3: "op_filter (meterOp sample_runtime (sample_find sample_weather) (sample_meter_rows ! 0)) =
     [(''date'', JStr ''22-06-2025''), (''time'', JStr ''00:00'')]"
    using spec [OF conjunct1 [OF conjunct2 [OF t1]], of "sample_meter_rows ! 0"] dt by simp
  have m: "sample_submit_rows ! 1 \<in> set sample_submit_rows"
    by (simp add: sample_submit_rows_def)
  have nd: "\<not> truthy (ws_date (sample_submit_rows ! 1))" by code_simp
  note rest = conjunct2 [OF conjunct2 [OF t3]]
  have r4: "\<not> ws_kept sample_exists (sample_submit_rows ! 1)"
    using bspec [OF conjunct1 [OF conjunct2 [OF conjunct2 [OF rest]]] m] nd by simp
  have w: "w_submitRows sample_runtime sample_exists sample_insertMany sample_submit_rows =
     Inr \<lparr>inserted = 1, skipped = 2,
          message = ''Weather data submission completed. 1 inserted, 2 skipped.''\<rparr>"
    by code_simp
  have r5: "length (docsToInsert sample_runtime sample_exists sample_submit_rows) = 1 \<and>
      skipped_rows sample_runtime sample_exists sample_submit_rows = 2"
    using conjunct2 [OF conjunct2 [OF conjunct2 [OF rest]]] unfolding w by simp
  from h1 r1 h2 r2 r3 m nd r4 w conjunct1 [OF r5] conjunct2 [OF r5] show ?thesis
    by (intro conjI)
qed

text \<open>
  The claim as stated fails for the meter service: a batch of two rows, the second with a
  time and a reading but no date, is rejected as a whole, while the first row alone is
  stored.
\<close>

theorem meter_submission_rejects_batch_counterexample:
  "get (sample_meter_rows ! 1) ''Date'' = JUndefined \<and>
   get (sample_meter_rows ! 1) ''date'' = JUndefined \<and>
   submitRows sample_runtime (sample_find sample_weather) sample_bulkWrite sample_meter_rows =
     Inl (BadRequestException ''Each row must contain Date'') \<and>
   submitRows sample_runtime (sample_find sample_weather) sample_bulkWrite
       [sample_meter_rows ! 0] =
     Inr \<lparr>insertedCount = 0, matchedCount = 0, modifiedCount = 0, upsertedCount = 1\<rparr>"
  by code_simp

section \<open>Validating again\<close>

text \<open>
  Validating the same rows again, with the service as the first validation left it (the
  weather model cached), gives the same result and leaves the service as it is.
\<close>

lemma validateRows_again:
  "validateRows rt this rows = Inr (res, this') \<Longrightarrow> validateRows rt this' rows = Inr (res, this')"
  by (auto simp: validateRows_def getWeatherModel_def split: option.splits)

text \<open>
  Claim C7. Validating the rows that the meter validation returned does not give the
  defects of the first validation. The enriched rows carry the derived columns
  \<open>GSS Export Total\<close>, \<open>GSS Import Total\<close>, \<open>Net Export @GSS\<close> and one total per meter,
  whose names contain \<open>export\<close> or \<open>import\<close>, so that the second validation reads them as
  readings. In the sample batch the row of 23-06-2025 has neither times nor readings and
  is reported at row number 3; validated again, the batch is valid. In the batch whose one
  row has a final reading below the initial one, the first validation finds nothing and the
  second reports three negative readings, all of them derived totals.
\<close>

theorem revalidation_of_enriched_rows_differs:
  "map_sum id (v_errors \<circ> fst) (validateRows sample_runtime sample_service sample_rows) =
     Inr [(3, [either_or])] \<and>
   map_sum id (v_errors \<circ> fst) (revalidate sample_runtime sample_service sample_rows) = Inr [] \<and>
   map_sum id (v_errors \<circ> fst) (validateRows sample_runtime sample_service sample_swapped_rows) =
     Inr [] \<and>
   map_sum id (v_errors \<circ> fst) (revalidate sample_runtime sample_service sample_swapped_rows) =
     Inr [(2, [''Export Total 1 cannot be negative'', ''GSS Export Total cannot be negative'',
               ''Net Export @GSS cannot be negative''])]"
  by code_simp

end
